theory Spec2Isabelle
  imports Complex_Main
begin

section \<open>Python values used by the scraper\<close>

text \<open>
  A Python \<open>str\<close> is a sequence of Unicode code points, and \<open>len\<close>, slicing and
  \<open>in\<close> count code points. Strings are therefore lists of code points (natural numbers);
  \<open>ascii\<close> turns an ASCII literal into such a list.
\<close>

type_synonym pystr = "nat list"

definition ascii :: "string \<Rightarrow> pystr" where
  "ascii s = map of_char s"

text \<open>
  The characters that \<open>str.strip()\<close> and \<open>str.split()\<close> treat as white space:
  TAB..CR, FS..US, space, NEL, NBSP and the Unicode space separators.
\<close>

definition is_space :: "nat \<Rightarrow> bool" where
  "is_space c = (c \<in> set [9, 10, 11, 12, 13, 28, 29, 30, 31, 32, 133, 160, 5760,
      8192, 8193, 8194, 8195, 8196, 8197, 8198, 8199, 8200, 8201, 8202,
      8232, 8233, 8239, 8287, 12288])"

text \<open>
  The decimal digits: \<open>\d\<close> of a \<open>str\<close> pattern matches every character of the
  Unicode category Nd, and \<open>int\<close> reads every one of them. They stand in runs of ten,
  from a digit zero to its digit nine; \<open>digit_zeros\<close> lists the zeros of Unicode 14.0,
  the database of CPython 3.11 (48 is \<open>0\<close>, 1632 the Arabic-Indic zero, 65296 the
  full-width zero).
\<close>

definition digit_zeros :: "nat list" where
  "digit_zeros =
     [48, 1632, 1776, 1984, 2406, 2534, 2662, 2790, 2918, 3046,
      3174, 3302, 3430, 3558, 3664, 3792, 3872, 4160, 4240, 6112,
      6160, 6470, 6608, 6784, 6800, 6992, 7088, 7232, 7248, 42528,
      43216, 43264, 43472, 43504, 43600, 44016, 65296, 66720, 68912, 69734,
      69872, 69942, 70096, 70384, 70736, 70864, 71248, 71360, 71472, 71904,
      72016, 72784, 73040, 73120, 92768, 92864, 93008, 120782, 120792, 120802,
      120812, 120822, 123200, 123632, 125264, 130032]"

definition is_digit :: "nat \<Rightarrow> bool" where
  "is_digit c = list_ex (\<lambda>z. z \<le> c \<and> c \<le> z + 9) digit_zeros"

text \<open>The value of a decimal digit: its distance from the zero of its run.\<close>

definition digit_value :: "nat \<Rightarrow> nat" where
  "digit_value c =
     (case find (\<lambda>z. z \<le> c \<and> c \<le> z + 9) digit_zeros of None \<Rightarrow> 0 | Some z \<Rightarrow> c - z)"

definition strip :: "pystr \<Rightarrow> pystr" where
  "strip s = rev (dropWhile is_space (rev (dropWhile is_space s)))"

text \<open>\<open>s.replace(',', '')\<close>: every comma (code point 44) is removed.\<close>

definition replace_comma :: "pystr \<Rightarrow> pystr" where
  "replace_comma s = filter (\<lambda>c. c \<noteq> 44) s"

text \<open>
  \<open>re.findall(r'\d+', text)\<close>: scanning from the left, a digit starts a match that
  takes every digit that follows; the scan goes on behind the match.
\<close>

function re_findall_digits :: "pystr \<Rightarrow> pystr list" where
  "re_findall_digits [] = []"
| "re_findall_digits (c # cs) =
     (if is_digit c
      then (c # takeWhile is_digit cs) # re_findall_digits (dropWhile is_digit cs)
      else re_findall_digits cs)"
  by pat_completeness auto
termination
  by (relation "measure length") (auto simp: length_dropWhile_le less_Suc_eq_le)

text \<open>
  \<open>int(s)\<close> for a match of \<open>\d+\<close>, a non-empty run of decimal digits: the number they
  write in base ten. A run of more than 4300 digits raises \<open>ValueError\<close> (\<open>None\<close>
  here): 4300 is the default of \<open>sys.int_max_str_digits\<close>, which the program does not
  change.
\<close>

definition max_str_digits :: nat where
  "max_str_digits = 4300"

definition py_int :: "pystr \<Rightarrow> int option" where
  "py_int ds =
     (if max_str_digits < length ds then None
      else Some (foldl (\<lambda>a d. 10 * a + int (digit_value d)) 0 ds))"

text \<open>\<open>str(n)\<close> of an integer, as an f-string renders it.\<close>

function nat_digits :: "nat \<Rightarrow> pystr" where
  "nat_digits n = (if n < 10 then [48 + n] else nat_digits (n div 10) @ [48 + n mod 10])"
  by pat_completeness auto
termination
  by (relation "measure id") auto

declare nat_digits.simps [simp del]

definition str_of_int :: "int \<Rightarrow> pystr" where
  "str_of_int i = (if i < 0 then 45 # nat_digits (nat (- i)) else nat_digits (nat i))"

text \<open>A value that is either \<open>None\<close> or a \<open>str\<close>.\<close>

datatype pyval = PyNone | PyStr pystr

text \<open>Truthiness of such a value: \<open>None\<close> and the empty string are falsy.\<close>

fun truthy :: "pyval \<Rightarrow> bool" where
  "truthy PyNone = False"
| "truthy (PyStr s) = (s \<noteq> [])"


section \<open>The parsed document\<close>

text \<open>
  \<open>BeautifulSoup(response.text, 'html.parser')\<close> is the library's parser; the model
  starts from its result, the tree of elements and text nodes. An element has its tag
  name, its attributes and its children.
\<close>

datatype node = Text pystr | Elem pystr "(pystr \<times> pystr) list" "node list"

text \<open>All elements below a node, in document order (\<open>find_all\<close> walks them).\<close>

fun elements :: "node \<Rightarrow> node list" where
  "elements (Text s) = []"
| "elements (Elem t as cs) = concat (map (\<lambda>c. (case c of Text s \<Rightarrow> [] | Elem t' as' cs' \<Rightarrow> [c]) @ elements c) cs)"

fun tag_of :: "node \<Rightarrow> pystr" where
  "tag_of (Text s) = []"
| "tag_of (Elem t as cs) = t"

definition find_all :: "pystr list \<Rightarrow> node \<Rightarrow> node list" where
  "find_all tags n = filter (\<lambda>e. tag_of e \<in> set tags) (elements n)"

text \<open>\<open>find\<close> is the first result of \<open>find_all\<close>, or \<open>None\<close>.\<close>

definition find_first :: "pystr \<Rightarrow> node \<Rightarrow> node option" where
  "find_first t n = (case find_all [t] n of [] \<Rightarrow> None | e # _ \<Rightarrow> Some e)"

text \<open>The text nodes below a node, in document order.\<close>

fun all_strings :: "node \<Rightarrow> pystr list" where
  "all_strings (Text s) = [s]"
| "all_strings (Elem t as cs) = concat (map all_strings cs)"

text \<open>\<open>element.text\<close>: the text nodes joined with nothing in between.\<close>

definition text_of :: "node \<Rightarrow> pystr" where
  "text_of n = concat (all_strings n)"

fun join :: "pystr \<Rightarrow> pystr list \<Rightarrow> pystr" where
  "join sep [] = []"
| "join sep [x] = x"
| "join sep (x # y # ys) = x @ sep @ join sep (y # ys)"

text \<open>
  \<open>get_text(sep, strip=True)\<close>: every text node is stripped, the empty ones are
  dropped, the rest is joined with \<open>sep\<close>.
\<close>

definition get_text_strip :: "pystr \<Rightarrow> node \<Rightarrow> pystr" where
  "get_text_strip sep n = join sep (filter (\<lambda>s. s \<noteq> []) (map strip (all_strings n)))"

text \<open>\<open>a.get('href')\<close>: the first attribute of that name.\<close>

fun get_attr :: "pystr \<Rightarrow> node \<Rightarrow> pystr option" where
  "get_attr k (Text s) = None"
| "get_attr k (Elem t as cs) = map_of as k"

text \<open>
  \<open>tag.string\<close>: defined when the tag has exactly one child, which is a text node
  or a tag that has a \<open>string\<close> itself.
\<close>

fun node_string :: "node \<Rightarrow> pystr option" where
  "node_string (Text s) = Some s"
| "node_string (Elem t as [c]) = node_string c"
| "node_string (Elem t as cs) = None"

text \<open>
  \<open>for t in soup.find_all(["script", "style", "noscript"]): t.decompose()\<close>
  removes these elements, with everything below them, from the tree.
\<close>

fun decompose :: "pystr list \<Rightarrow> node \<Rightarrow> node" where
  "decompose tags (Text s) = Text s"
| "decompose tags (Elem t as cs) =
     Elem t as (map (decompose tags) (filter (\<lambda>c. tag_of c \<notin> set tags) cs))"

text \<open>
  The CSS selector engine behind \<open>select\<close> and \<open>select_one\<close>, and \<open>urljoin\<close>, are
  library code. They are parameters of the model: \<open>css_select sel doc\<close> is the list of
  matches in document order, or \<open>None\<close> when the engine raises (a malformed selector).
\<close>

record lib =
  css_select :: "pystr \<Rightarrow> node \<Rightarrow> node list option"
  urljoin :: "pystr \<Rightarrow> pystr \<Rightarrow> pystr"

text \<open>\<open>select_one\<close>: the first match; \<open>Inl ()\<close> is the engine's exception.\<close>

definition select_one :: "lib \<Rightarrow> pystr \<Rightarrow> node \<Rightarrow> unit + node option" where
  "select_one L sel doc =
     (case css_select L sel doc of
        None \<Rightarrow> Inl ()
      | Some [] \<Rightarrow> Inr None
      | Some (e # _) \<Rightarrow> Inr (Some e))"


section \<open>The scraper's configuration\<close>

text \<open>The attributes \<open>FixedWebScraper.__init__\<close> reads from the configuration.\<close>

record scraper =
  base_url :: pystr
  selectors :: "pystr \<rightharpoonup> pystr"
  max_retries :: int
  retry_delay :: real
  request_delay_min :: real
  request_delay_max :: real
  page_delay_min :: real
  page_delay_max :: real
  max_pages :: int
  min_read_count :: int
  min_interaction_count :: int


section \<open>Field extraction (fixed\_scraper.py)\<close>

text \<open>
  \<open>extract_text\<close> as the file has it: the method ends after the check of the selector.
  With a selector configured, control reaches the end of the body, and the call yields
  \<open>None\<close>. (The lines that select the element stand after the last \<open>return\<close> of
  \<open>extract_content\<close>, where nothing runs them.)
\<close>

definition extract_text :: "scraper \<Rightarrow> node \<Rightarrow> pystr \<Rightarrow> int option \<Rightarrow> pyval" where
  "extract_text S soup field max_length =
     (case selectors S field of
        None \<Rightarrow> PyStr []
      | Some selector \<Rightarrow> if selector = [] then PyStr [] else PyNone)"

text \<open>
  \<open>extract_number\<close>; every exception of the body is caught and gives 0, the
  \<open>ValueError\<close> of \<open>int\<close> among them.
\<close>

definition extract_number :: "lib \<Rightarrow> scraper \<Rightarrow> node \<Rightarrow> pystr \<Rightarrow> int" where
  "extract_number L S soup field =
     (case selectors S field of
        None \<Rightarrow> 0
      | Some selector \<Rightarrow>
          if selector = [] then 0
          else (case select_one L selector soup of
                  Inl _ \<Rightarrow> 0
                | Inr None \<Rightarrow> 0
                | Inr (Some element) \<Rightarrow>
                    (let text = replace_comma (strip (text_of element));
                         numbers = re_findall_digits text
                     in case numbers of
                          [] \<Rightarrow> 0
                        | n # _ \<Rightarrow> (case py_int n of None \<Rightarrow> 0 | Some number \<Rightarrow> number))))"

text \<open>\<open>is_bestseller\<close> (the same body in configurable\_scraper.py).\<close>

definition is_bestseller :: "scraper \<Rightarrow> int \<Rightarrow> int \<Rightarrow> bool" where
  "is_bestseller S read_count interaction_count =
     (read_count > min_read_count S \<and> interaction_count > min_interaction_count S)"


section \<open>The specification's wording of numeric extraction\<close>

text \<open>
  The specification describes \<open>extractNumber\<close> as: the first contiguous run of digits
  found anywhere in the text, read as a decimal number. These two definitions follow
  that wording; they are compared with the code's \<open>re.findall\<close> and \<open>int\<close> below.
\<close>

definition first_digit_run :: "pystr \<Rightarrow> pystr" where
  "first_digit_run t = takeWhile is_digit (dropWhile (\<lambda>c. \<not> is_digit c) t)"

fun decimal_value :: "pystr \<Rightarrow> int" where
  "decimal_value [] = 0"
| "decimal_value (d # ds) = int (digit_value d) * 10 ^ length ds + decimal_value ds"

definition extract_number_spec :: "lib \<Rightarrow> scraper \<Rightarrow> node \<Rightarrow> pystr \<Rightarrow> int" where
  "extract_number_spec L S soup field =
     (case selectors S field of
        None \<Rightarrow> 0
      | Some selector \<Rightarrow>
          if selector = [] then 0
          else (case css_select L selector soup of
                  None \<Rightarrow> 0
                | Some [] \<Rightarrow> 0
                | Some (element # _) \<Rightarrow>
                    decimal_value (first_digit_run (replace_comma (strip (text_of element))))))"

text \<open>The run of digits that this reads: that of the first matched element, if any.\<close>

definition digit_run_of :: "lib \<Rightarrow> scraper \<Rightarrow> node \<Rightarrow> pystr \<Rightarrow> pystr" where
  "digit_run_of L S soup field =
     (case selectors S field of
        None \<Rightarrow> []
      | Some selector \<Rightarrow>
          if selector = [] then []
          else (case css_select L selector soup of
                  None \<Rightarrow> []
                | Some [] \<Rightarrow> []
                | Some (element # _) \<Rightarrow>
                    first_digit_run (replace_comma (strip (text_of element)))))"


section \<open>Concrete configuration and pages\<close>

text \<open>
  \<open>get_default_config\<close> of fixed\_scraper.py, as \<open>FixedWebScraper.__init__\<close> reads it.
\<close>

definition default_config :: scraper where
  "default_config =
     \<lparr> base_url = ascii ''https://httpbin.org/html'',
       selectors = map_of
         [(ascii ''article_links'', ascii ''a''),
          (ascii ''title'', ascii ''h1''),
          (ascii ''author'', ascii ''p''),
          (ascii ''publish_time'', ascii ''p''),
          (ascii ''read_count'', ascii ''p''),
          (ascii ''like_count'', ascii ''p''),
          (ascii ''collect_count'', ascii ''p''),
          (ascii ''summary'', ascii ''p'')],
       max_retries = 3,
       retry_delay = 2,
       request_delay_min = 2,
       request_delay_max = 4,
       page_delay_min = 3,
       page_delay_max = 5,
       max_pages = 1,
       min_read_count = 100,
       min_interaction_count = 10 \<rparr>"

text \<open>
  A selector engine for the examples: it knows type selectors (\<open>h1\<close>, \<open>p\<close>, \<open>a\<close>), which
  match every element of that tag in document order. \<open>urljoin\<close> of an absolute URL is
  that URL.
\<close>

definition type_selector_lib :: lib where
  "type_selector_lib =
     \<lparr> css_select = (\<lambda>sel doc. Some (find_all [sel] doc)),
       urljoin = (\<lambda>base href. href) \<rparr>"

text \<open>
  The page \<open><p> 12,345 [U+6B21] </p>\<close>, a page whose paragraph has no digit, a page
  whose paragraph is the full-width digits 1, 2, 3, and a page whose paragraph is the
  digit 1 written 4301 times.
\<close>

definition page_12345 :: node where
  "page_12345 =
     Elem (ascii ''[document]'') []
       [Elem (ascii ''p'') [] [Text (ascii '' 12,345 '' @ [27425] @ ascii '' '')]]"

definition page_no_digits :: node where
  "page_no_digits =
     Elem (ascii ''[document]'') []
       [Elem (ascii ''p'') [] [Text (ascii ''many reads'')]]"

definition page_fullwidth :: node where
  "page_fullwidth =
     Elem (ascii ''[document]'') []
       [Elem (ascii ''p'') [] [Text [65297, 65298, 65299]]]"

definition page_long_number :: node where
  "page_long_number =
     Elem (ascii ''[document]'') []
       [Elem (ascii ''p'') [] [Text (replicate 4301 49)]]"


section \<open>The network, the clock and the trace of a run\<close>

text \<open>
  A \<open>requests.Response\<close> as the scraper reads it: the status code and the parsed body.
\<close>

record response =
  status_code :: int
  body :: node

text \<open>
  \<open>if not response\<close> asks the response for its truth value. \<open>requests.Response.__bool__\<close>
  returns \<open>self.ok\<close>, which is false exactly when \<open>raise_for_status()\<close> would raise: for
  a status code from 400 up to 599.
\<close>

definition response_ok :: "response \<Rightarrow> bool" where
  "response_ok r = (\<not> (400 \<le> status_code r \<and> status_code r < 600))"

fun not_response :: "response option \<Rightarrow> bool" where
  "not_response None = True"
| "not_response (Some r) = (\<not> response_ok r)"

text \<open>
  What one call of \<open>session.get\<close> does: it returns a response, or it raises. \<open>Raised e\<close>
  is an exception of \<open>requests.exceptions\<close>, named by its class; \<open>RequestException\<close>
  stands for every class of the package that the other five do not cover.
  \<open>RaisedOther\<close> is an exception that only \<open>except Exception\<close> catches.
\<close>

datatype failure =
  SSLError | ConnectionError | ConnectTimeout | ReadTimeout | Timeout | RequestException

datatype outcome = Returned response | Raised failure | RaisedOther

text \<open>
  \<open>isinstance(e, C)\<close> for these classes: an \<open>SSLError\<close> is a \<open>ConnectionError\<close>, a
  \<open>ConnectTimeout\<close> is a \<open>ConnectionError\<close> and a \<open>Timeout\<close>, a \<open>ReadTimeout\<close> is a
  \<open>Timeout\<close>, and each of them is a \<open>RequestException\<close>.
\<close>

fun is_a :: "failure \<Rightarrow> failure \<Rightarrow> bool" where
  "is_a SSLError C = (C = SSLError \<or> C = ConnectionError \<or> C = RequestException)"
| "is_a ConnectionError C = (C = ConnectionError \<or> C = RequestException)"
| "is_a ConnectTimeout C =
     (C = ConnectTimeout \<or> C = ConnectionError \<or> C = Timeout \<or> C = RequestException)"
| "is_a ReadTimeout C = (C = ReadTimeout \<or> C = Timeout \<or> C = RequestException)"
| "is_a Timeout C = (C = Timeout \<or> C = RequestException)"
| "is_a RequestException C = (C = RequestException)"

text \<open>
  The \<open>except\<close> clause of \<open>make_request\<close> that catches a request exception: the first
  of \<open>SSLError\<close>, \<open>ConnectionError\<close>, \<open>Timeout\<close>, \<open>RequestException\<close>, in the order of
  the source, whose class the exception is an instance of.
\<close>

definition caught_by :: "failure \<Rightarrow> failure" where
  "caught_by e =
     (if is_a e SSLError then SSLError
      else if is_a e ConnectionError then ConnectionError
      else if is_a e Timeout then Timeout
      else RequestException)"

text \<open>
  The world outside the program: the outcome of the \<open>n\<close>-th call of \<open>session.get\<close>
  (counted from 0, over the whole run) for the URL it is given; the \<open>n\<close>-th value of
  \<open>random.random()\<close>, a number in \<open>[0, 1)\<close>; the number of GET calls after which the
  other thread's \<open>stop_scraping\<close> clears \<open>is_running\<close>, if it ever does; whether
  writing the CSV file succeeds; and the longest sleep that the platform's clock
  accepts at a point of the run (the point is the number of entries of the trace).
\<close>

record world =
  session_get :: "nat \<Rightarrow> pystr \<Rightarrow> outcome"
  random :: "nat \<Rightarrow> real"
  stop_after :: "nat option"
  csv_writable :: bool
  sleep_max :: "nat \<Rightarrow> real"

text \<open>
  Messages of the module's \<open>logger\<close> in \<open>make_request\<close> and in the page loop of
  fixed\_scraper.py, and the messages \<open>log_message\<close> appends to
  \<open>scraping_status['log_messages']\<close>. A constructor stands for the message text; its
  arguments are the values the text is formatted with.
\<close>

datatype logmsg =
    Non200 int
  | AttemptFailed failure nat
  | FinallyFailed failure
  | UnexpectedException nat
  | PageNoArticles int

datatype statusmsg =
    Initialising
  | TaskStarted
  | FetchingPage int pystr
  | PageEmpty int
  | TotalLinks nat
  | ListFetchFailed pystr
  | ListResponse int
  | AnchorCount nat
  | SelectorHits nat pystr
  | SampleLink nat pystr "pystr option"
  | ValidLinks nat
  | SingleArticlePage pystr
  | ProcessingArticle nat nat pystr
  | BestsellerFound pystr
  | StoppedByUser
  | NoLinksTaskEnds
  | TaskDone "pystr list" nat
  | SavedTo
  | SaveFailed
  | ErrorEntry
  | RunFailed

datatype event = Get pystr | Sleep real | Logger logmsg | Status statusmsg

text \<open>The exceptions the model raises itself: those of \<open>time.sleep\<close>.\<close>

datatype exn = ValueError | OverflowError | OSError

text \<open>One article, the dictionary \<open>parse_article_detail\<close> returns.\<close>

record article =
  title :: pystr
  author :: pyval
  publish_time :: pyval
  read_count :: int
  like_count :: int
  collect_count :: int
  summary :: pyval
  content :: pystr
  detail_url :: pystr
  bestseller :: bool
  art_status_code :: "int option"
  art_error :: "pystr option"

text \<open>
  The state of a run: the trace of effects in the order they happen, the counters of
  the world's oracles, the fields of \<open>scraping_status\<close>, the two counters of
  \<open>WebScraperWithProgress\<close>, and what \<open>save_to_csv\<close> wrote and \<open>last_articles\<close> holds.
  (\<open>scraping_status['progress']\<close>, a floating-point percentage, is left out.)
\<close>

record state =
  trace :: "event list"
  gets :: nat
  draws :: nat
  is_running :: bool
  total_articles :: nat
  current_article :: nat
  bestsellers_found :: nat
  error :: bool
  self_total_articles :: nat
  self_current_article :: nat
  csv_file :: "article list option"
  last_articles :: "article list"

definition emit :: "event \<Rightarrow> state \<Rightarrow> state" where
  "emit e s = s\<lparr>trace := trace s @ [e]\<rparr>"

text \<open>
  \<open>self.log_message(...)\<close> behind \<open>hasattr(self, "log_message")\<close>: only a
  \<open>WebScraperWithProgress\<close> has the method.
\<close>

definition log_message :: "statusmsg \<Rightarrow> state \<Rightarrow> state" where
  "log_message m s = emit (Status m) s"

definition log_message_if :: "bool \<Rightarrow> statusmsg \<Rightarrow> state \<Rightarrow> state" where
  "log_message_if has_log m s = (if has_log then log_message m s else s)"

text \<open>
  One call of \<open>session.get\<close>. The stop request of the other thread, if it falls after
  this call, clears \<open>is_running\<close>.
\<close>

definition do_get :: "world \<Rightarrow> pystr \<Rightarrow> state \<Rightarrow> outcome \<times> state" where
  "do_get W url s =
     (session_get W (gets s) url,
      s\<lparr>trace := trace s @ [Get url],
        gets := Suc (gets s),
        is_running := (is_running s \<and> stop_after W \<noteq> Some (Suc (gets s)))\<rparr>)"

text \<open>\<open>random.uniform(a, b)\<close> is \<open>a + (b - a) * random()\<close>.\<close>

definition uniform :: "world \<Rightarrow> real \<Rightarrow> real \<Rightarrow> state \<Rightarrow> real \<times> state" where
  "uniform W a b s = (a + (b - a) * random W (draws s), s\<lparr>draws := Suc (draws s)\<rparr>)"

text \<open>
  \<open>time.sleep(d)\<close>, as CPython 3.11 does it on Linux. The length is turned into a
  count of nanoseconds, rounded away from zero. A count outside the range of a signed
  64-bit integer raises \<open>OverflowError\<close>, a negative count \<open>ValueError\<close>. The kernel
  is then asked to sleep until the monotonic clock reaches its present reading plus
  the length, and it refuses, with \<open>OSError\<close>, a deadline beyond its range: the
  longest sleep it takes is the world's \<open>sleep_max\<close>. The lengths are Python floats,
  which the model reads as real numbers: their rounding is left out, an infinite
  length behaves as one that is too large, and NaN, for which \<open>time.sleep\<close> raises
  \<open>ValueError\<close>, is not a value of the model.
\<close>

definition nanoseconds :: "real \<Rightarrow> int" where
  "nanoseconds d = (if 0 \<le> d then \<lceil>d * 10 ^ 9\<rceil> else \<lfloor>d * 10 ^ 9\<rfloor>)"

definition sleep_error :: "real \<Rightarrow> real \<Rightarrow> exn option" where
  "sleep_error longest d =
     (if nanoseconds d < - (2 ^ 63) \<or> 2 ^ 63 \<le> nanoseconds d then Some OverflowError
      else if nanoseconds d < 0 then Some ValueError
      else if longest < d then Some OSError
      else None)"

definition sleep :: "world \<Rightarrow> real \<Rightarrow> state \<Rightarrow> (exn + unit) \<times> state" where
  "sleep W d s =
     (case sleep_error (sleep_max W (length (trace s))) d of
        Some e \<Rightarrow> (Inl e, s)
      | None \<Rightarrow> (Inr (), emit (Sleep d) s))"


section \<open>make\_request (fixed\_scraper.py)\<close>

text \<open>
  The loop \<open>for attempt in range(self.max_retries)\<close>; \<open>remaining\<close> counts the
  iterations that are left. A response is returned at once. The four handlers of
  request exceptions have one shape: log, then either sleep and go on, or log the
  final failure and return \<open>None\<close>. The sleep stands inside the handler, so an
  exception of it leaves \<open>make_request\<close>.
\<close>

fun attempts :: "world \<Rightarrow> scraper \<Rightarrow> pystr \<Rightarrow> nat \<Rightarrow> nat \<Rightarrow> state
    \<Rightarrow> (exn + response option) \<times> state" where
  "attempts W S url attempt 0 s = (Inr None, s)"
| "attempts W S url attempt (Suc remaining) s =
     (case do_get W url s of
        (Returned r, s1) \<Rightarrow>
          (Inr (Some r), if status_code r \<noteq> 200 then emit (Logger (Non200 (status_code r))) s1 else s1)
      | (RaisedOther, s1) \<Rightarrow>
          (Inr None, emit (Logger (UnexpectedException (attempt + 1))) s1)
      | (Raised e, s1) \<Rightarrow>
          (let f = caught_by e;
               s2 = emit (Logger (AttemptFailed f (attempt + 1))) s1 in
           if int attempt < max_retries S - 1
           then (case uniform W 0 1 s2 of
                   (jitter, s3) \<Rightarrow>
                     (case sleep W (retry_delay S * 2 ^ attempt + jitter) s3 of
                        (Inl x, s4) \<Rightarrow> (Inl x, s4)
                      | (Inr _, s4) \<Rightarrow> attempts W S url (Suc attempt) remaining s4))
           else (Inr None, emit (Logger (FinallyFailed f)) s2)))"

definition make_request :: "world \<Rightarrow> scraper \<Rightarrow> pystr \<Rightarrow> state
    \<Rightarrow> (exn + response option) \<times> state" where
  "make_request W S url s = attempts W S url 0 (nat (max_retries S)) s"


section \<open>Article details (fixed\_scraper.py)\<close>

text \<open>
  The paragraphs of at least 20 characters below a node, each read with
  \<open>get_text(" ", strip=True)\<close>, joined by newlines and stripped.
\<close>

definition paragraphs_text :: "node \<Rightarrow> pystr" where
  "paragraphs_text n =
     strip (join [10] (filter (\<lambda>p. length p \<ge> 20)
       (map (get_text_strip [32]) (find_all [ascii ''p''] n))))"

text \<open>The loop that keeps the strictly longest text seen so far.\<close>

definition best_text :: "pystr list \<Rightarrow> pystr" where
  "best_text ts = foldl (\<lambda>best node_text. if length node_text > length best then node_text else best) [] ts"

text \<open>
  \<open>extract_content\<close>: the \<open>content\<close> selector if it is configured and matches (an
  exception of the engine is passed over), else the paragraphs of the first \<open>article\<close>
  if they reach 200 characters, else the paragraphs of the page if they do, else the
  longest \<open>div\<close>, \<open>section\<close> or \<open>main\<close>.
\<close>

definition extract_content :: "lib \<Rightarrow> scraper \<Rightarrow> node \<Rightarrow> pystr" where
  "extract_content L S soup0 =
     (let soup = decompose [ascii ''script'', ascii ''style'', ascii ''noscript''] soup0;
          by_selector =
            (case selectors S (ascii ''content'') of
               None \<Rightarrow> None
             | Some selector \<Rightarrow>
                 if selector = [] then None
                 else (case select_one L selector soup of
                         Inr (Some elem) \<Rightarrow> Some (get_text_strip [10] elem)
                       | _ \<Rightarrow> None));
          in_article =
            (case find_first (ascii ''article'') soup of
               None \<Rightarrow> None
             | Some article \<Rightarrow>
                 if length (paragraphs_text article) \<ge> 200
                 then Some (paragraphs_text article) else None)
      in case by_selector of
           Some text \<Rightarrow> text
         | None \<Rightarrow>
            (case in_article of
               Some text \<Rightarrow> text
             | None \<Rightarrow>
                 if length (paragraphs_text soup) \<ge> 200 then paragraphs_text soup
                 else strip (best_text (map (get_text_strip [10])
                        (find_all [ascii ''div'', ascii ''section'', ascii ''main''] soup)))))"

text \<open>
  \<open>(soup.title.string or "").strip() if soup.title and soup.title.string else ""\<close>
\<close>

definition fallback_title :: "node \<Rightarrow> pystr" where
  "fallback_title soup =
     (case find_first (ascii ''title'') soup of
        None \<Rightarrow> []
      | Some t \<Rightarrow> (case node_string t of None \<Rightarrow> [] | Some s \<Rightarrow> if s = [] then [] else strip s))"

text \<open>\<open>x if x else y\<close> for a value that is \<open>None\<close> or a string, and a string \<open>y\<close>.\<close>

fun or_else :: "pyval \<Rightarrow> pystr \<Rightarrow> pystr" where
  "or_else PyNone y = y"
| "or_else (PyStr x) y = (if x = [] then y else x)"

text \<open>The record returned when \<open>if not response\<close> holds.\<close>

definition request_failed :: "pystr \<Rightarrow> article" where
  "request_failed url =
     \<lparr> title = [], author = PyStr [], publish_time = PyStr [],
       read_count = 0, like_count = 0, collect_count = 0,
       summary = PyStr [], content = [], detail_url = url,
       bestseller = False, art_status_code = None,
       art_error = Some (ascii ''request_failed'') \<rparr>"

text \<open>
  The body of the \<open>try\<close> in \<open>parse_article_detail\<close>. No statement of it raises: the
  extraction methods catch the selector engine's exceptions themselves.
\<close>

definition article_data :: "lib \<Rightarrow> scraper \<Rightarrow> pystr \<Rightarrow> response \<Rightarrow> article" where
  "article_data L S url r =
     (let soup = body r;
          title1 = or_else (extract_text S soup (ascii ''title'') None) (fallback_title soup);
          reads = extract_number L S soup (ascii ''read_count'');
          likes = extract_number L S soup (ascii ''like_count'');
          collects = extract_number L S soup (ascii ''collect_count'');
          content_summary = extract_text S soup (ascii ''summary'') (Some 200);
          text = extract_content L S soup;
          interaction_count = likes + collects
      in \<lparr> title = (if title1 = [] then url else title1),
           author = extract_text S soup (ascii ''author'') None,
           publish_time = extract_text S soup (ascii ''publish_time'') None,
           read_count = reads, like_count = likes, collect_count = collects,
           summary =
             (if \<not> truthy content_summary \<and> text \<noteq> []
              then PyStr (take 200 text @ (if length text > 200 then ascii ''...'' else []))
              else content_summary),
           content = text, detail_url = url,
           bestseller = is_bestseller S reads interaction_count,
           art_status_code = Some (status_code r),
           art_error =
             (if status_code r = 200 then None
              else Some (ascii ''http_'' @ str_of_int (status_code r))) \<rparr>)"

text \<open>
  \<open>parse_article_detail\<close>. The call of \<open>make_request\<close> stands before the \<open>try\<close>, so
  an exception of it is passed on. The result is always a dictionary.
\<close>

definition parse_article_detail :: "world \<Rightarrow> lib \<Rightarrow> scraper \<Rightarrow> pystr \<Rightarrow> state
    \<Rightarrow> (exn + article) \<times> state" where
  "parse_article_detail W L S url s =
     (case make_request W S url s of
        (Inl e, s1) \<Rightarrow> (Inl e, s1)
      | (Inr response, s1) \<Rightarrow>
          if not_response response then (Inr (request_failed url), s1)
          else (case response of
                  None \<Rightarrow> (Inr (request_failed url), s1)
                | Some r \<Rightarrow> (Inr (article_data L S url r), s1)))"


section \<open>Reading a trace\<close>

text \<open>The URLs of the GET calls of a trace, and the lengths of its sleeps, in order.\<close>

definition get_calls :: "event list \<Rightarrow> pystr list" where
  "get_calls es = concat (map (\<lambda>e. case e of Get u \<Rightarrow> [u] | _ \<Rightarrow> []) es)"




text \<open>
  The state before a run, as web\_app.py initialises \<open>scraping_status\<close>, and a world in
  which every GET raises the same exception and every random number is one half.
\<close>

definition initial_state :: state where
  "initial_state =
     \<lparr> trace = [], gets = 0, draws = 0, is_running = False, total_articles = 0,
       current_article = 0, bestsellers_found = 0, error = False,
       self_total_articles = 0, self_current_article = 0, csv_file = None,
       last_articles = [] \<rparr>"

definition failing_world :: "failure \<Rightarrow> world" where
  "failing_world f =
     \<lparr> session_get = (\<lambda>n u. Raised f), random = (\<lambda>k. 1 / 2), stop_after = None,
       csv_writable = True,
       sleep_max = (\<lambda>n. 9000000000) \<rparr>"


section \<open>The sibling extract\_text (configurable\_scraper.py)\<close>

text \<open>\<open>text[:m]\<close> for an integer \<open>m\<close>; a negative \<open>m\<close> counts from the end.\<close>

definition slice_to :: "int \<Rightarrow> pystr \<Rightarrow> pystr" where
  "slice_to m s = (if 0 \<le> m then take (nat m) s else take (length s - nat (- m)) s)"

text \<open>
  \<open>WebScraper.extract_text\<close> of configurable\_scraper.py: the same method with its body
  in place. It has no \<open>try\<close>, so an exception of the selector engine leaves it.
\<close>

definition extract_text_configurable :: "lib \<Rightarrow> scraper \<Rightarrow> node \<Rightarrow> pystr \<Rightarrow> int option \<Rightarrow> unit + pystr" where
  "extract_text_configurable L S soup field max_length =
     (case selectors S field of
        None \<Rightarrow> Inr []
      | Some selector \<Rightarrow>
          if selector = [] then Inr []
          else (case select_one L selector soup of
                  Inl e \<Rightarrow> Inl e
                | Inr None \<Rightarrow> Inr []
                | Inr (Some element) \<Rightarrow>
                    (let text = strip (text_of element)
                     in Inr (case max_length of
                               None \<Rightarrow> text
                             | Some m \<Rightarrow>
                                 if m \<noteq> 0 \<and> int (length text) > m
                                 then slice_to m text @ ascii ''...'' else text))))"

text \<open>
  A page with a \<open>title\<close> element and a heading, a page with the heading only, and a
  world that answers every GET with the same status code and page.
\<close>

definition page_titles :: node where
  "page_titles =
     Elem (ascii ''[document]'') []
       [Elem (ascii ''html'') []
          [Elem (ascii ''head'') [] [Elem (ascii ''title'') [] [Text (ascii ''Page Title'')]],
           Elem (ascii ''body'') [] [Elem (ascii ''h1'') [] [Text (ascii '' Real Title '')]]]]"

definition page_h1_only :: node where
  "page_h1_only =
     Elem (ascii ''[document]'') []
       [Elem (ascii ''h1'') [] [Text (ascii '' Real Title '')]]"

definition serving :: "int \<Rightarrow> node \<Rightarrow> world" where
  "serving code page =
     \<lparr> session_get = (\<lambda>n u. Returned \<lparr>status_code = code, body = page\<rparr>),
       random = (\<lambda>k. 1 / 2), stop_after = None, csv_writable = True,
       sleep_max = (\<lambda>n. 9000000000) \<rparr>"


section \<open>fetch\_article\_links (fixed\_scraper.py)\<close>

text \<open>String tests of Python: \<open>startswith\<close>, \<open>endswith\<close>, \<open>in\<close> and \<open>lower\<close>.\<close>

definition startswith :: "pystr \<Rightarrow> pystr \<Rightarrow> bool" where
  "startswith s p = (take (length p) s = p)"

definition endswith :: "pystr \<Rightarrow> pystr \<Rightarrow> bool" where
  "endswith s p = (length p \<le> length s \<and> drop (length s - length p) s = p)"

fun contains :: "pystr \<Rightarrow> pystr \<Rightarrow> bool" where
  "contains [] kw = (kw = [])"
| "contains (c # cs) kw = (startswith (c # cs) kw \<or> contains cs kw)"

text \<open>
  \<open>lower\<close>: the letters A..Z become a..z. Of the characters outside ASCII, whose case
  Python also folds, only KELVIN SIGN turns into an ASCII letter.
\<close>

definition lower_char :: "nat \<Rightarrow> nat" where
  "lower_char c = (if 65 \<le> c \<and> c \<le> 90 then c + 32 else if c = 8490 then 107 else c)"

definition lower :: "pystr \<Rightarrow> pystr" where
  "lower s = map lower_char s"

text \<open>
  Lines 359 to 366: strip the attribute, keep its first token, and give a scheme
  written with one slash its second slash.
\<close>

definition normalize_href :: "pystr \<Rightarrow> pystr" where
  "normalize_href raw =
     (let href1 = strip raw;
          href2 = (if href1 \<noteq> [] then takeWhile (\<lambda>c. \<not> is_space c) href1 else href1);
          href3 = (if startswith href2 (ascii ''https:/'') \<and> \<not> startswith href2 (ascii ''https://'')
                   then ascii ''https://'' @ drop 7 href2 else href2)
      in if startswith href3 (ascii ''http:/'') \<and> \<not> startswith href3 (ascii ''http://'')
         then ascii ''http://'' @ drop 6 href3 else href3)"

definition skipped_extensions :: "pystr list" where
  "skipped_extensions =
     [ascii ''.apk'', ascii ''.jpg'', ascii ''.jpeg'', ascii ''.png'', ascii ''.gif'',
      ascii ''.css'', ascii ''.js'', ascii ''.pdf'', ascii ''.zip'']"

text \<open>
  The excluded words of line 388, as code points: login, register, help, about,
  contact, feedback, more, home page, map, recruitment.
\<close>

definition exclude_keywords :: "pystr list" where
  "exclude_keywords =
     [[30331, 24405], [27880, 20876], [24110, 21161], [20851, 20110], [32852, 31995],
      [21453, 39304], [26356, 22810], [39318, 39029], [22320, 22270], [25307, 32856]]"

text \<open>The tests that end an iteration with \<open>continue\<close>, in the order of the source.\<close>

definition skip_link :: "pystr \<Rightarrow> pystr \<Rightarrow> bool" where
  "skip_link text href =
     (list_ex (endswith (lower href)) skipped_extensions
      \<or> length text < 4
      \<or> length href < 10
      \<or> startswith href (ascii ''javascript'') \<or> startswith href (ascii ''#'')
      \<or> list_ex (contains text) exclude_keywords)"

text \<open>
  The loop over the selected elements, \<open>i\<close> counting them from 0. An element without
  \<open>href\<close>, or with an empty one, adds no link. A skipped element ends its iteration
  before the sample message; the first five of the others are logged.
\<close>

fun link_loop :: "lib \<Rightarrow> bool \<Rightarrow> pystr \<Rightarrow> nat \<Rightarrow> node list \<Rightarrow> pystr list \<Rightarrow> state
    \<Rightarrow> pystr list \<times> state" where
  "link_loop L has_log page_url i [] links s = (links, s)"
| "link_loop L has_log page_url i (a # rest) links s =
     (let text = get_text_strip [] a;
          sample = (\<lambda>href st. if i < 5
                      then log_message_if has_log (SampleLink (i + 1) (take 30 text) href) st
                      else st)
      in case get_attr (ascii ''href'') a of
           None \<Rightarrow> link_loop L has_log page_url (i + 1) rest links (sample None s)
         | Some raw \<Rightarrow>
             if raw = [] then link_loop L has_log page_url (i + 1) rest links (sample (Some raw) s)
             else if skip_link text (normalize_href raw)
             then link_loop L has_log page_url (i + 1) rest links s
             else link_loop L has_log page_url (i + 1) rest
                    (links @ [urljoin L page_url (normalize_href raw)])
                    (sample (Some (normalize_href raw)) s))"

text \<open>
  \<open>fetch_article_links\<close>. The request stands before the \<open>try\<close>. Inside it, an
  exception of \<open>soup.select\<close> is caught and gives the empty list. When no link is
  left and the page has no \<open>a\<close> element at all, the page itself is the one link.
  \<open>has_log\<close> is \<open>hasattr(self, "log_message")\<close>.
\<close>

definition fetch_article_links :: "world \<Rightarrow> lib \<Rightarrow> scraper \<Rightarrow> bool \<Rightarrow> pystr \<Rightarrow> state
    \<Rightarrow> (exn + pystr list) \<times> state" where
  "fetch_article_links W L S has_log page_url s =
     (case make_request W S page_url s of
        (Inl e, s1) \<Rightarrow> (Inl e, s1)
      | (Inr response, s1) \<Rightarrow>
          if not_response response
          then (Inr [], log_message_if has_log (ListFetchFailed page_url) s1)
          else (case response of
                  None \<Rightarrow> (Inr [], log_message_if has_log (ListFetchFailed page_url) s1)
                | Some r \<Rightarrow>
                   (let soup = body r;
                        s2 = log_message_if has_log (ListResponse (status_code r)) s1;
                        a_count = length (find_all [ascii ''a''] soup);
                        s3 = log_message_if has_log (AnchorCount a_count) s2;
                        selector = (case selectors S (ascii ''article_links'') of
                                      None \<Rightarrow> ascii ''a'' | Some sel \<Rightarrow> sel)
                    in case css_select L selector soup of
                         None \<Rightarrow> (Inr [], s3)
                       | Some matched \<Rightarrow>
                          (case link_loop L has_log page_url 0 matched []
                                  (log_message_if has_log (SelectorHits (length matched) selector) s3) of
                             (links, s4) \<Rightarrow>
                               (let s5 = log_message_if has_log (ValidLinks (length links)) s4
                                in if links = [] \<and> a_count = 0
                                   then (Inr [page_url],
                                         log_message_if has_log (SingleArticlePage page_url) s5)
                                   else (Inr links, s5))))))"


section \<open>Link discovery: what the claims speak of\<close>

text \<open>
  An element that adds no link: it has no \<open>href\<close>, an empty one, or one of the tests
  of \<open>skip_link\<close> holds for it.
\<close>

definition filtered_out :: "node \<Rightarrow> bool" where
  "filtered_out a =
     (case get_attr (ascii ''href'') a of
        None \<Rightarrow> True
      | Some raw \<Rightarrow> raw = [] \<or> skip_link (get_text_strip [] a) (normalize_href raw))"

text \<open>\<open>self.selectors.get('article_links', 'a')\<close>\<close>

definition article_links_selector :: "scraper \<Rightarrow> pystr" where
  "article_links_selector S =
     (case selectors S (ascii ''article_links'') of None \<Rightarrow> ascii ''a'' | Some sel \<Rightarrow> sel)"

text \<open>
  A page whose four anchors are all filtered out: a fragment, an image, a text of
  two characters, and an anchor without \<open>href\<close>.
\<close>

definition page_noise :: node where
  "page_noise =
     Elem (ascii ''[document]'') []
       [Elem (ascii ''a'') [(ascii ''href'', ascii ''#top'')] [Text (ascii ''Back to the top'')],
        Elem (ascii ''a'') [(ascii ''href'', ascii ''https://a.example/logo.png'')] [Text (ascii ''The logo'')],
        Elem (ascii ''a'') [(ascii ''href'', ascii ''https://a.example/2'')] [Text (ascii ''Go'')],
        Elem (ascii ''a'') [] [Text (ascii ''An anchor without target'')]]"


section \<open>The page loops and the job (fixed\_scraper.py, web\_app.py)\<close>

text \<open>
  The URL of a page: the base URL for page 1, else the base URL, \<open>&\<close> or \<open>?\<close>
  (\<open>&\<close> when the base URL holds a \<open>?\<close>), and \<open>page=\<close> with the page number.
\<close>

definition page_url_of :: "pystr \<Rightarrow> int \<Rightarrow> pystr" where
  "page_url_of base page =
     (if page > 1
      then base @ (if 63 \<in> set base then ascii ''&'' else ascii ''?'')
             @ ascii ''page='' @ str_of_int page
      else base)"

text \<open>
  \<open>FixedWebScraper.fetch_multiple_pages\<close>: the loop over \<open>range(1, max_pages + 1)\<close>.
  A page without links is logged and the loop goes on with the next page.
\<close>

fun page_loop :: "world \<Rightarrow> lib \<Rightarrow> scraper \<Rightarrow> pystr \<Rightarrow> int list \<Rightarrow> pystr list \<Rightarrow> state
    \<Rightarrow> (exn + pystr list) \<times> state" where
  "page_loop W L S base [] all_links s = (Inr all_links, s)"
| "page_loop W L S base (page # rest) all_links s =
     (case fetch_article_links W L S False (page_url_of base page) s of
        (Inl e, s1) \<Rightarrow> (Inl e, s1)
      | (Inr links, s1) \<Rightarrow>
          if links = []
          then page_loop W L S base rest all_links (emit (Logger (PageNoArticles page)) s1)
          else (case uniform W (page_delay_min S) (page_delay_max S) s1 of
                  (delay, s2) \<Rightarrow>
                    (case sleep W delay s2 of
                       (Inl e, s3) \<Rightarrow> (Inl e, s3)
                     | (Inr _, s3) \<Rightarrow> page_loop W L S base rest (all_links @ links) s3)))"

definition fetch_multiple_pages :: "world \<Rightarrow> lib \<Rightarrow> scraper \<Rightarrow> pystr \<Rightarrow> int \<Rightarrow> state
    \<Rightarrow> (exn + pystr list) \<times> state" where
  "fetch_multiple_pages W L S base pages s = page_loop W L S base [1..pages] [] s"

text \<open>
  \<open>WebScraperWithProgress.fetch_multiple_pages\<close>: the same loop, which first reads
  the stop flag, reports to the status log and keeps the totals up to date.
\<close>

fun page_loop_progress :: "world \<Rightarrow> lib \<Rightarrow> scraper \<Rightarrow> pystr \<Rightarrow> int list \<Rightarrow> pystr list
    \<Rightarrow> state \<Rightarrow> (exn + pystr list) \<times> state" where
  "page_loop_progress W L S base [] all_links s = (Inr all_links, s)"
| "page_loop_progress W L S base (page # rest) all_links s =
     (if \<not> is_running s then (Inr all_links, s)
      else
       (case fetch_article_links W L S True (page_url_of base page)
               (log_message (FetchingPage page (page_url_of base page)) s) of
          (Inl e, s1) \<Rightarrow> (Inl e, s1)
        | (Inr links, s1) \<Rightarrow>
            if links = []
            then page_loop_progress W L S base rest all_links (log_message (PageEmpty page) s1)
            else (case uniform W (page_delay_min S) (page_delay_max S)
                         (s1\<lparr>self_total_articles := length (all_links @ links),
                             total_articles := length (all_links @ links)\<rparr>) of
                    (delay, s2) \<Rightarrow>
                      (case sleep W delay s2 of
                         (Inl e, s3) \<Rightarrow> (Inl e, s3)
                       | (Inr _, s3) \<Rightarrow>
                           page_loop_progress W L S base rest (all_links @ links) s3))))"

definition fetch_multiple_pages_progress :: "world \<Rightarrow> lib \<Rightarrow> scraper \<Rightarrow> pystr \<Rightarrow> int
    \<Rightarrow> state \<Rightarrow> (exn + pystr list) \<times> state" where
  "fetch_multiple_pages_progress W L S base pages s =
     (case page_loop_progress W L S base [1..pages] [] s of
        (Inl e, s1) \<Rightarrow> (Inl e, s1)
      | (Inr all_links, s1) \<Rightarrow> (Inr all_links, log_message (TotalLinks (length all_links)) s1))"

text \<open>
  \<open>WebScraperWithProgress.parse_article_detail\<close>: it counts the article, reports it,
  parses it, and counts and reports a bestseller.
\<close>

definition parse_article_detail_progress :: "world \<Rightarrow> lib \<Rightarrow> scraper \<Rightarrow> pystr \<Rightarrow> state
    \<Rightarrow> (exn + article) \<times> state" where
  "parse_article_detail_progress W L S url s =
     (let n = Suc (self_current_article s);
          s1 = log_message (ProcessingArticle n (self_total_articles s) url)
                 (s\<lparr>self_current_article := n, current_article := n\<rparr>)
      in case parse_article_detail W L S url s1 of
           (Inl e, s2) \<Rightarrow> (Inl e, s2)
         | (Inr result, s2) \<Rightarrow>
             if bestseller result
             then (Inr result,
                   log_message (BestsellerFound (title result))
                     (s2\<lparr>bestsellers_found := Suc (bestsellers_found s2)\<rparr>))
             else (Inr result, s2))"

text \<open>
  The loop over the links in \<open>run_scraper\<close>. The stop flag is read first. An article
  is kept when its stripped content has at least \<open>min_content_length\<close> characters and,
  if there are keywords, one of them occurs in title, newline and content.
\<close>

fun detail_loop :: "world \<Rightarrow> lib \<Rightarrow> scraper \<Rightarrow> pystr list \<Rightarrow> nat \<Rightarrow> pystr list
    \<Rightarrow> article list \<Rightarrow> state \<Rightarrow> (exn + article list) \<times> state" where
  "detail_loop W L S keywords min_content_length [] articles s = (Inr articles, s)"
| "detail_loop W L S keywords min_content_length (link # rest) articles s =
     (if \<not> is_running s then (Inr articles, log_message StoppedByUser s)
      else
       (case parse_article_detail_progress W L S link s of
          (Inl e, s1) \<Rightarrow> (Inl e, s1)
        | (Inr data, s1) \<Rightarrow>
            if length (strip (content data)) < min_content_length
            then detail_loop W L S keywords min_content_length rest articles s1
            else if keywords \<noteq> []
                    \<and> \<not> list_ex (contains (title data @ [10] @ strip (content data))) keywords
            then detail_loop W L S keywords min_content_length rest articles s1
            else (case uniform W (request_delay_min S) (request_delay_max S) s1 of
                    (delay, s2) \<Rightarrow>
                      (case sleep W delay s2 of
                         (Inl e, s3) \<Rightarrow> (Inl e, s3)
                       | (Inr _, s3) \<Rightarrow>
                           detail_loop W L S keywords min_content_length rest
                             (articles @ [data]) s3))))"

text \<open>
  The body of the \<open>try\<close> in \<open>run_scraper\<close>. \<open>S\<close> is the configuration that
  \<open>FixedConfigManager()\<close> loads, \<open>keywords\<close> the module's \<open>current_keywords\<close>.
  \<open>started\<close> is the state after \<open>scraping_status.update(...)\<close>, the creation of the
  scraper and its first message; the stop request may fall before the first GET.
\<close>

definition started :: "world \<Rightarrow> state \<Rightarrow> state" where
  "started W s =
     log_message TaskStarted
       ((emit (Status Initialising) s)
          \<lparr>is_running := (stop_after W \<noteq> Some (gets s)),
           total_articles := 0, current_article := 0, bestsellers_found := 0,
           error := False, self_total_articles := 0, self_current_article := 0\<rparr>)"

definition job :: "world \<Rightarrow> lib \<Rightarrow> scraper \<Rightarrow> pystr list \<Rightarrow> nat \<Rightarrow> state
    \<Rightarrow> (exn + unit) \<times> state" where
  "job W L S keywords min_content_length s =
     (case fetch_multiple_pages_progress W L S (base_url S) (max_pages S) (started W s) of
        (Inl e, s2) \<Rightarrow> (Inl e, s2)
      | (Inr article_links, s2) \<Rightarrow>
          if article_links = [] then (Inr (), log_message NoLinksTaskEnds s2)
          else (case detail_loop W L S keywords min_content_length article_links [] s2 of
                  (Inl e, s3) \<Rightarrow> (Inl e, s3)
                | (Inr articles, s3) \<Rightarrow>
                    (Inr (),
                     (if csv_writable W
                      then log_message SavedTo
                             (log_message (TaskDone keywords (length articles))
                                (s3\<lparr>csv_file := Some articles\<rparr>))
                      else log_message SaveFailed s3)
                     \<lparr>last_articles := articles\<rparr>)))"

text \<open>
  \<open>run_scraper\<close>: an exception of the body is recorded in \<open>scraping_status['error']\<close>
  and logged twice; \<open>finally\<close> clears \<open>is_running\<close> on every path.
\<close>

definition run_scraper :: "world \<Rightarrow> lib \<Rightarrow> scraper \<Rightarrow> pystr list \<Rightarrow> nat \<Rightarrow> state \<Rightarrow> state" where
  "run_scraper W L S keywords min_content_length s =
     (case job W L S keywords min_content_length s of
        (Inl e, s1) \<Rightarrow>
          (log_message RunFailed (emit (Status ErrorEntry) (s1\<lparr>error := True\<rparr>)))
            \<lparr>is_running := False\<rparr>
      | (Inr _, s1) \<Rightarrow> s1\<lparr>is_running := False\<rparr>)"


section \<open>A small site\<close>

text \<open>
  A list page at \<open>list_url\<close> with \<open>n\<close> anchors to articles, a second list page whose
  anchors are all filtered out, and an article page whose text has 240 characters.
  The site answers by URL, with status 200.
\<close>

definition list_url :: pystr where
  "list_url = ascii ''https://a.example/list''"

definition article_url :: "nat \<Rightarrow> pystr" where
  "article_url n = ascii ''https://a.example/article/'' @ [48 + n]"

definition anchor :: "nat \<Rightarrow> node" where
  "anchor n =
     Elem (ascii ''a'') [(ascii ''href'', article_url n)] [Text (ascii ''Article number '' @ [48 + n])]"

definition list_page :: "nat \<Rightarrow> node" where
  "list_page n = Elem (ascii ''[document]'') [] (map anchor [1..<Suc n])"

definition article_page :: node where
  "article_page =
     Elem (ascii ''[document]'') []
       [Elem (ascii ''div'') [] [Text (replicate 240 120)]]"

definition site :: "nat \<Rightarrow> nat option \<Rightarrow> world" where
  "site n stop =
     \<lparr> session_get = (\<lambda>k u.
         if u = list_url then Returned \<lparr>status_code = 200, body = list_page n\<rparr>
         else if u = list_url @ ascii ''?page=2''
         then Returned \<lparr>status_code = 200, body = page_noise\<rparr>
         else Returned \<lparr>status_code = 200, body = article_page\<rparr>),
       random = (\<lambda>k. 1 / 2), stop_after = stop, csv_writable = True,
       sleep_max = (\<lambda>n. 9000000000) \<rparr>"

definition site_config :: "int \<Rightarrow> scraper" where
  "site_config pages = default_config\<lparr>base_url := list_url, max_pages := pages\<rparr>"

text \<open>
  An element that adds a link, and the link it adds; a state that differs from another
  by entries of the status log only.
\<close>

definition kept :: "node \<Rightarrow> bool" where
  "kept a = (case get_attr (ascii ''href'') a of
               None \<Rightarrow> False
             | Some raw \<Rightarrow> raw \<noteq> [] \<and> \<not> skip_link (get_text_strip [] a) (normalize_href raw))"

definition link_of :: "lib \<Rightarrow> pystr \<Rightarrow> node \<Rightarrow> pystr" where
  "link_of L page_url a =
     (case get_attr (ascii ''href'') a of
        None \<Rightarrow> []
      | Some raw \<Rightarrow> urljoin L page_url (normalize_href raw))"

definition status_only :: "state \<Rightarrow> state \<Rightarrow> bool" where
  "status_only s s' = (\<exists>ms. s' = s\<lparr>trace := trace s @ map Status ms\<rparr>)"


text \<open>
  The job on the site with five article links and one list page, without keywords and
  with \<open>min_content_length = 200\<close>, when the stop request falls after the second GET.
\<close>

definition cancelled_run :: state where
  "cancelled_run =
     run_scraper (site 5 (Some 2)) type_selector_lib (site_config 1) [] 200 initial_state"


section \<open>Numeric extraction\<close>

lemma re_findall_digits_unfold:
  "re_findall_digits t =
     (let r = dropWhile (\<lambda>c. \<not> is_digit c) t
      in if r = [] then [] else takeWhile is_digit r # re_findall_digits (dropWhile is_digit r))"
  by (induction t rule: re_findall_digits.induct) (simp_all add: Let_def)

lemma re_findall_digits_Nil: "(re_findall_digits t = []) = (first_digit_run t = [])"
proof (cases "dropWhile (\<lambda>c. \<not> is_digit c) t")
  case Nil
  have a: "first_digit_run t = []"
    unfolding first_digit_run_def Nil by simp
  have b: "re_findall_digits t = []"
    by (subst re_findall_digits_unfold) (simp only: Nil Let_def, simp)
  from a b show ?thesis by simp
next
  case (Cons c cs)
  then have "is_digit c"
    using hd_dropWhile [of "\<lambda>c. \<not> is_digit c" t] by simp
  with Cons show ?thesis
    by (subst re_findall_digits_unfold) (simp add: Let_def first_digit_run_def)
qed

lemma re_findall_digits_hd: "re_findall_digits t = n # ns \<Longrightarrow> n = first_digit_run t"
  by (subst (asm) re_findall_digits_unfold)
     (auto simp: Let_def first_digit_run_def split: if_splits)

lemma foldl_decimal:
  "foldl (\<lambda>a d. 10 * a + int (digit_value d)) a ds = a * 10 ^ length ds + decimal_value ds"
  by (induction ds arbitrary: a) (simp_all add: algebra_simps)

lemma py_int_decimal_value:
  "py_int ds = (if max_str_digits < length ds then None else Some (decimal_value ds))"
  by (simp add: py_int_def foldl_decimal)

lemma first_number_spec:
  "(case re_findall_digits t of
      [] \<Rightarrow> 0
    | n # _ \<Rightarrow> (case py_int n of None \<Rightarrow> 0 | Some number \<Rightarrow> number))
   = (if max_str_digits < length (first_digit_run t) then 0 else decimal_value (first_digit_run t))"
proof (cases "re_findall_digits t")
  case Nil
  with re_findall_digits_Nil [of t] show ?thesis by simp
next
  case (Cons n ns)
  with re_findall_digits_hd [of t n ns] show ?thesis
    by (simp add: py_int_decimal_value)
qed

lemma ascii_digit: "48 \<le> c \<Longrightarrow> c \<le> 57 \<Longrightarrow> is_digit c \<and> digit_value c = c - 48"
  by (simp add: is_digit_def digit_value_def digit_zeros_def)

lemma below_digits: "c < 48 \<Longrightarrow> \<not> is_digit c"
  by (simp add: is_digit_def digit_zeros_def)

lemma fullwidth_digit:
  "65296 \<le> c \<Longrightarrow> c \<le> 65305 \<Longrightarrow> is_digit c \<and> digit_value c = c - 65296"
  by (simp add: is_digit_def digit_value_def digit_zeros_def)

lemma decimal_value_nonneg: "0 \<le> decimal_value ds"
  by (induction ds) simp_all

lemma decimal_value_pos: "0 < digit_value c \<Longrightarrow> 0 < decimal_value (replicate (Suc n) c)"
  using decimal_value_nonneg [of "replicate n c"]
  by (simp add: add_pos_nonneg)

lemma extract_number_spec_run:
  "extract_number_spec L S soup field = decimal_value (digit_run_of L S soup field)"
  by (simp add: extract_number_spec_def digit_run_of_def split: option.splits list.splits)

lemma extract_number_by_run:
  "extract_number L S soup field
     = (if max_str_digits < length (digit_run_of L S soup field) then 0
        else extract_number_spec L S soup field)"
  by (simp add: extract_number_def extract_number_spec_def digit_run_of_def select_one_def
        Let_def first_number_spec split: option.splits list.splits)

text \<open>
  Claim C8, as amended. \<open>extract_number\<close> strips the commas from the trimmed text of
  the first matched element, takes the first contiguous run of decimal digits found
  anywhere in it and reads it as an integer, as the specification words it, unless the
  run has more than 4300 digits: then the result is 0. The text \<open>12,345\<close> followed by a
  Chinese character gives 12345; a text without digits gives 0; a field without a
  selector gives 0; a selector that matches nothing gives 0; the full-width digits
  1, 2, 3 give 123.
\<close>

theorem extract_number_first_digit_run:
  "extract_number L S soup field
     = (if max_str_digits < length (digit_run_of L S soup field) then 0
        else extract_number_spec L S soup field)
   \<and> extract_number_spec L S soup field = decimal_value (digit_run_of L S soup field)
   \<and> extract_number type_selector_lib default_config page_12345 (ascii ''read_count'') = 12345
   \<and> extract_number type_selector_lib default_config page_no_digits (ascii ''read_count'') = 0
   \<and> extract_number type_selector_lib default_config page_12345 (ascii ''shares'') = 0
   \<and> extract_number type_selector_lib (default_config\<lparr>selectors := [ascii ''read_count'' \<mapsto> ascii ''h2'']\<rparr>)
         page_12345 (ascii ''read_count'') = 0
   \<and> extract_number type_selector_lib default_config page_fullwidth (ascii ''read_count'') = 123"
proof -
  have general: "extract_number L S soup field
     = (if max_str_digits < length (digit_run_of L S soup field) then 0
        else extract_number_spec L S soup field)"
    by (rule extract_number_by_run)
  have sel: "selectors default_config (ascii ''read_count'') = Some (ascii ''p'')"
    by (simp add: default_config_def ascii_def)
  have d: "is_digit 49" "is_digit 50" "is_digit 51" "is_digit 52" "is_digit 53"
      "digit_value 49 = 1" "digit_value 50 = 2" "digit_value 51 = 3" "digit_value 52 = 4"
      "digit_value 53 = 5"
    using ascii_digit [of 49] ascii_digit [of 50] ascii_digit [of 51] ascii_digit [of 52]
      ascii_digit [of 53]
    by simp_all
  have nd: "\<not> is_digit 32" "\<not> is_digit 27425"
    by (simp_all add: is_digit_def digit_zeros_def)
  have letters: "re_findall_digits (ascii ''many reads'') = []"
    by (simp add: ascii_def is_digit_def digit_zeros_def)
  have ex1: "extract_number type_selector_lib default_config page_12345 (ascii ''read_count'') = 12345"
    by (simp add: extract_number_def default_config_def select_one_def type_selector_lib_def
          page_12345_def find_all_def text_of_def strip_def replace_comma_def is_space_def
          py_int_def max_str_digits_def ascii_def d nd)
  have ex2: "extract_number type_selector_lib default_config page_no_digits (ascii ''read_count'') = 0"
    by (simp add: extract_number_def default_config_def select_one_def type_selector_lib_def
          page_no_digits_def find_all_def text_of_def strip_def replace_comma_def is_space_def
          ascii_def is_digit_def digit_zeros_def)
  have ex3: "extract_number type_selector_lib default_config page_12345 (ascii ''shares'') = 0"
    by (simp add: extract_number_def default_config_def ascii_def)
  have ex4: "extract_number type_selector_lib (default_config\<lparr>selectors := [ascii ''read_count'' \<mapsto> ascii ''h2'']\<rparr>)
         page_12345 (ascii ''read_count'') = 0"
    by (simp add: extract_number_def select_one_def type_selector_lib_def
          page_12345_def find_all_def ascii_def)
  have fw: "is_digit 65297" "is_digit 65298" "is_digit 65299"
      "digit_value 65297 = 1" "digit_value 65298 = 2" "digit_value 65299 = 3"
    using fullwidth_digit [of 65297] fullwidth_digit [of 65298] fullwidth_digit [of 65299]
    by simp_all
  have ex5: "extract_number type_selector_lib default_config page_fullwidth (ascii ''read_count'') = 123"
    by (simp add: extract_number_def default_config_def select_one_def type_selector_lib_def
          page_fullwidth_def find_all_def text_of_def strip_def replace_comma_def is_space_def
          py_int_def max_str_digits_def ascii_def fw)
  from general extract_number_spec_run [of L S soup field] ex1 ex2 ex3 ex4 ex5
  show ?thesis by simp
qed

text \<open>
  The claim as stated fails on a long run of digits: for a paragraph that is the digit
  1 written 4301 times, \<open>int\<close> raises \<open>ValueError\<close> and \<open>extract_number\<close> returns 0,
  where the specification's reading is the number these digits write, which is not 0.
\<close>

theorem extract_number_long_run_counterexample:
  "extract_number type_selector_lib default_config page_long_number (ascii ''read_count'') = 0
   \<and> digit_run_of type_selector_lib default_config page_long_number (ascii ''read_count'')
       = replicate 4301 49
   \<and> 0 < extract_number_spec type_selector_lib default_config page_long_number (ascii ''read_count'')"
proof -
  have sel: "selectors default_config (ascii ''read_count'') = Some (ascii ''p'')"
    by (simp add: default_config_def ascii_def)
  have d: "is_digit 49" "digit_value 49 = 1"
    using ascii_digit [of 49] by simp_all
  have el: "css_select type_selector_lib (ascii ''p'') page_long_number
      = Some [Elem (ascii ''p'') [] [Text (replicate 4301 49)]]"
    by (simp add: type_selector_lib_def find_all_def page_long_number_def)
  have sp: "\<not> is_space 49" by (simp add: is_space_def)
  have body: "replace_comma (strip (text_of (Elem (ascii ''p'') [] [Text (replicate 4301 49)])))
      = replicate 4301 49"
    using sp by (simp add: text_of_def strip_def replace_comma_def)
  have run: "first_digit_run (replicate 4301 49) = replicate 4301 49"
    using d(1) by (simp add: first_digit_run_def dropWhile_replicate takeWhile_replicate)
  have ne: "ascii ''p'' \<noteq> []" by (simp add: ascii_def)
  have r: "digit_run_of type_selector_lib default_config page_long_number (ascii ''read_count'')
       = replicate 4301 49"
    by (simp add: digit_run_of_def sel el body run ne)
  have pos: "0 < decimal_value (replicate 4301 49)"
    using decimal_value_pos [of 49 4300] d(2) by simp
  have a: "extract_number type_selector_lib default_config page_long_number (ascii ''read_count'') = 0"
    using extract_number_by_run [of type_selector_lib default_config
        page_long_number "ascii ''read_count''"]
    by (simp add: r max_str_digits_def)
  have b: "0 < extract_number_spec type_selector_lib default_config page_long_number (ascii ''read_count'')"
    using pos by (simp add: extract_number_spec_run r)
  from a r b show ?thesis by simp
qed

section \<open>Retries of make\_request\<close>

lemma nanoseconds_bounds:
  "0 \<le> d \<Longrightarrow> d \<le> 9000000000 \<Longrightarrow> 0 \<le> nanoseconds d \<and> nanoseconds d < 2 ^ 63"
  "d < 0 \<Longrightarrow> - 9000000000 \<le> d \<Longrightarrow> nanoseconds d < 0 \<and> - (2 ^ 63) \<le> nanoseconds d"
  "10000000000 \<le> d \<Longrightarrow> 2 ^ 63 \<le> nanoseconds d"
proof -
  show "0 \<le> nanoseconds d \<and> nanoseconds d < 2 ^ 63" if "0 \<le> d" "d \<le> 9000000000"
  proof -
    have "d * 10 ^ 9 \<le> 9000000000000000000" using that by simp
    then have "\<lceil>d * 10 ^ 9\<rceil> \<le> 9000000000000000000" by (simp add: ceiling_le_iff)
    moreover have "0 \<le> \<lceil>d * 10 ^ 9\<rceil>" using that by simp
    ultimately show ?thesis using that by (simp add: nanoseconds_def)
  qed
  show "nanoseconds d < 0 \<and> - (2 ^ 63) \<le> nanoseconds d" if "d < 0" "- 9000000000 \<le> d"
  proof -
    have "- 9000000000000000000 \<le> d * 10 ^ 9" using that by simp
    then have "- 9000000000000000000 \<le> \<lfloor>d * 10 ^ 9\<rfloor>" by (simp add: le_floor_iff)
    moreover have "\<lfloor>d * 10 ^ 9\<rfloor> < 0" using that by (simp add: floor_less_iff)
    ultimately show ?thesis using that by (simp add: nanoseconds_def)
  qed
  show "2 ^ 63 \<le> nanoseconds d" if "10000000000 \<le> d"
  proof -
    have "10000000000000000000 \<le> d * 10 ^ 9" using that by simp
    then have "10000000000000000000 \<le> \<lceil>d * 10 ^ 9\<rceil>" by (simp add: le_ceiling_iff)
    then show ?thesis using that by (simp add: nanoseconds_def)
  qed
qed

lemma sleep_error_accepted:
  "0 \<le> d \<Longrightarrow> d \<le> 9000000000 \<Longrightarrow> d \<le> longest \<Longrightarrow> sleep_error longest d = None"
  using nanoseconds_bounds(1) [of d] by (simp add: sleep_error_def)

lemma sleep_error_negative:
  "d < 0 \<Longrightarrow> - 9000000000 \<le> d \<Longrightarrow> sleep_error longest d = Some ValueError"
  using nanoseconds_bounds(2) [of d] by (simp add: sleep_error_def)

lemma sleep_error_overflow: "10000000000 \<le> d \<Longrightarrow> sleep_error longest d = Some OverflowError"
  using nanoseconds_bounds(3) [of d] by (simp add: sleep_error_def)

lemma sleep_accepted:
  "0 \<le> d \<Longrightarrow> d \<le> 9000000000 \<Longrightarrow> d \<le> sleep_max W (length (trace s))
     \<Longrightarrow> sleep W d s = (Inr (), emit (Sleep d) s)"
  by (simp add: sleep_def sleep_error_accepted)

lemma sleep_negative:
  "d < 0 \<Longrightarrow> - 9000000000 \<le> d \<Longrightarrow> sleep W d s = (Inl ValueError, s)"
  by (simp add: sleep_def sleep_error_negative)

lemma sleep_overflow: "10000000000 \<le> d \<Longrightarrow> sleep W d s = (Inl OverflowError, s)"
  by (simp add: sleep_def sleep_error_overflow)








lemma default_waits_accepted:
  "sleep_error 9000000000 (5 / 2) = None" "sleep_error 9000000000 (9 / 2) = None"
  by (simp_all add: sleep_error_accepted)



section \<open>Text extraction and the bestseller predicate\<close>

text \<open>
  Claim C1 fails on the code. In fixed\_scraper.py \<open>extract_text\<close> ends after the check
  of the selector: with a selector configured it returns \<open>None\<close>, not the text of the
  first match, for any document and any \<open>max_length\<close>. Without a selector it returns
  the empty string. The same method of configurable\_scraper.py returns the trimmed text.
\<close>

theorem extract_text_returns_None:
  "extract_text default_config page_titles (ascii ''title'') None = PyNone
   \<and> extract_text default_config page_titles (ascii ''summary'') (Some 200) = PyNone
   \<and> extract_text default_config page_titles (ascii ''subtitle'') None = PyStr []
   \<and> extract_text_configurable type_selector_lib default_config page_titles (ascii ''title'') None
       = Inr (ascii ''Real Title'')"
  by (simp add: extract_text_def extract_text_configurable_def default_config_def ascii_def
        select_one_def type_selector_lib_def page_titles_def find_all_def text_of_def strip_def
        is_space_def)

lemma extract_text_selector:
  "selectors S field = Some sel \<Longrightarrow> sel \<noteq> [] \<Longrightarrow> extract_text S soup field m = PyNone"
  by (simp add: extract_text_def)

text \<open>
  Claim C2. \<open>is_bestseller\<close> is the conjunction of two strict comparisons: it equals
  \<open>read_count > min_read_count \<and> interaction_count > min_interaction_count\<close> for all
  integers, so an article exactly at either threshold is not a bestseller; the record
  of an article is classified with \<open>like_count + collect_count\<close> as interaction count.
\<close>

theorem is_bestseller_strict:
  "is_bestseller S r i = (r > min_read_count S \<and> i > min_interaction_count S)
   \<and> is_bestseller S (min_read_count S) i = False
   \<and> is_bestseller S r (min_interaction_count S) = False
   \<and> bestseller (article_data L S url resp)
       = is_bestseller S (read_count (article_data L S url resp))
           (like_count (article_data L S url resp) + collect_count (article_data L S url resp))"
  by (simp add: is_bestseller_def article_data_def Let_def)

text \<open>
  Claim C9 fails on the code, by the defect of claim C1: the text of the title selector
  is never used. A page whose heading matches the title selector gets the text of its
  \<open>title\<close> element as title, and the detail URL when it has no \<open>title\<close> element.
\<close>

theorem title_selector_ignored:
  "title (article_data type_selector_lib default_config (ascii ''https://a.example/1'')
      \<lparr>status_code = 200, body = page_titles\<rparr>) = ascii ''Page Title''
   \<and> title (article_data type_selector_lib default_config (ascii ''https://a.example/1'')
      \<lparr>status_code = 200, body = page_h1_only\<rparr>) = ascii ''https://a.example/1''
   \<and> extract_text_configurable type_selector_lib default_config page_h1_only (ascii ''title'') None
       = Inr (ascii ''Real Title'')"
  by (simp add: article_data_def Let_def extract_text_def fallback_title_def find_first_def
        extract_text_configurable_def select_one_def text_of_def
        default_config_def ascii_def type_selector_lib_def page_titles_def page_h1_only_def
        find_all_def strip_def is_space_def)

text \<open>What does hold: the title is not empty when the URL is not.\<close>

lemma title_never_empty: "url \<noteq> [] \<Longrightarrow> title (article_data L S url r) \<noteq> []"
  by (simp add: article_data_def Let_def)

text \<open>
  Claim C3 fails on the code. A response with status 404 is returned by
  \<open>make_request\<close> after one GET, without a retry; but \<open>if not response\<close> is true for
  it, so \<open>parse_article_detail\<close> returns the record of a failed request, with no
  status code and the tag \<open>request_failed\<close>, not \<open>http_404\<close>.
\<close>

theorem not_found_is_request_failed:
  "fst (make_request (serving 404 page_titles) default_config (ascii ''https://a.example/1'') initial_state)
     = Inr (Some \<lparr>status_code = 404, body = page_titles\<rparr>)
   \<and> get_calls (trace (snd (make_request (serving 404 page_titles) default_config
        (ascii ''https://a.example/1'') initial_state))) = [ascii ''https://a.example/1'']
   \<and> fst (parse_article_detail (serving 404 page_titles) type_selector_lib default_config
        (ascii ''https://a.example/1'') initial_state) = Inr (request_failed (ascii ''https://a.example/1''))
   \<and> art_status_code (request_failed (ascii ''https://a.example/1'')) = None
   \<and> art_error (request_failed (ascii ''https://a.example/1'')) = Some (ascii ''request_failed'')"
  by (simp add: parse_article_detail_def make_request_def serving_def default_config_def
        initial_state_def numeral_3_eq_3 do_get_def emit_def get_calls_def response_ok_def
        request_failed_def)

section \<open>The record of a detail page\<close>

lemma str304: "str_of_int 304 = ascii ''304''"
  by (simp add: str_of_int_def nat_digits.simps ascii_def)

text \<open>
  A response at the first attempt is returned at once, after one GET, whatever its
  status code.
\<close>

lemma make_request_first_response:
  assumes "session_get W (gets s) url = Returned r" and "0 < max_retries S"
  shows "fst (make_request W S url s) = Inr (Some r)
     \<and> get_calls (drop (length (trace s)) (trace (snd (make_request W S url s)))) = [url]"
proof -
  obtain m where m: "nat (max_retries S) = Suc m"
    using assms(2) by (cases "nat (max_retries S)") auto
  show ?thesis
    using assms(1) by (simp add: make_request_def m do_get_def emit_def get_calls_def)
qed

text \<open>
  Claim C10. When \<open>make_request\<close> yields nothing, \<open>parse_article_detail\<close> returns a
  complete record: empty title, author, publish time, summary and content, the three
  counters 0, not a bestseller, no status code, the tag \<open>request_failed\<close> (and the
  detail URL it was called with). When the page is fetched and parsed, the record holds
  the status code, its error is absent exactly when the status is 200, and otherwise
  it is \<open>http_\<close> followed by the status code.
\<close>

theorem parse_article_detail_error_tag:
  "(fst (make_request W S url s) = Inr None \<longrightarrow>
      fst (parse_article_detail W L S url s) =
        Inr \<lparr> title = [], author = PyStr [], publish_time = PyStr [],
              read_count = 0, like_count = 0, collect_count = 0,
              summary = PyStr [], content = [], detail_url = url,
              bestseller = False, art_status_code = None,
              art_error = Some (ascii ''request_failed'') \<rparr>)
   \<and> (fst (make_request W S url s) = Inr (Some r) \<and> response_ok r \<longrightarrow>
        (\<exists>a. fst (parse_article_detail W L S url s) = Inr a
           \<and> art_status_code a = Some (status_code r)
           \<and> (art_error a = None) = (status_code r = 200)
           \<and> (status_code r \<noteq> 200 \<longrightarrow>
                art_error a = Some (ascii ''http_'' @ str_of_int (status_code r)))))"
  by (auto simp: parse_article_detail_def request_failed_def article_data_def Let_def
        split: prod.splits sum.splits)

text \<open>
  An endpoint that always times out gives the record of a failed request; a page
  served with status 304 gives the tag \<open>http_304\<close>, one served with 200 no tag.
\<close>

theorem parse_article_detail_error_tag_witness:
  "fst (parse_article_detail (failing_world Timeout) type_selector_lib default_config
      (ascii ''https://a.example/1'') initial_state) =
        Inr \<lparr> title = [], author = PyStr [], publish_time = PyStr [],
              read_count = 0, like_count = 0, collect_count = 0,
              summary = PyStr [], content = [], detail_url = ascii ''https://a.example/1'',
              bestseller = False, art_status_code = None,
              art_error = Some (ascii ''request_failed'') \<rparr>
   \<and> (\<exists>a. fst (parse_article_detail (serving 304 page_titles) type_selector_lib default_config
          (ascii ''https://a.example/1'') initial_state) = Inr a
        \<and> art_status_code a = Some 304 \<and> art_error a = Some (ascii ''http_304''))
   \<and> (\<exists>a. fst (parse_article_detail (serving 200 page_titles) type_selector_lib default_config
          (ascii ''https://a.example/1'') initial_state) = Inr a
        \<and> art_status_code a = Some 200 \<and> art_error a = None)"
proof -
  let ?u = "ascii ''https://a.example/1''"
  have h1: "fst (make_request (failing_world Timeout) default_config ?u initial_state) = Inr None"
    by (simp add: make_request_def failing_world_def default_config_def initial_state_def
          numeral_3_eq_3 do_get_def emit_def uniform_def sleep_def Let_def default_waits_accepted)
  have h2: "fst (make_request (serving 304 page_titles) default_config ?u initial_state)
      = Inr (Some \<lparr>status_code = 304, body = page_titles\<rparr>)
      \<and> response_ok \<lparr>status_code = 304, body = page_titles\<rparr>"
    by (simp add: make_request_def serving_def default_config_def initial_state_def
          numeral_3_eq_3 do_get_def emit_def response_ok_def)
  have h3: "fst (make_request (serving 200 page_titles) default_config ?u initial_state)
      = Inr (Some \<lparr>status_code = 200, body = page_titles\<rparr>)
      \<and> response_ok \<lparr>status_code = 200, body = page_titles\<rparr>"
    by (simp add: make_request_def serving_def default_config_def initial_state_def
          numeral_3_eq_3 do_get_def emit_def response_ok_def)
  from parse_article_detail_error_tag [where W = "failing_world Timeout" and S = default_config
      and url = ?u and s = initial_state and L = type_selector_lib] h1
  have a: "fst (parse_article_detail (failing_world Timeout) type_selector_lib default_config
      ?u initial_state) =
        Inr \<lparr> title = [], author = PyStr [], publish_time = PyStr [],
              read_count = 0, like_count = 0, collect_count = 0,
              summary = PyStr [], content = [], detail_url = ?u,
              bestseller = False, art_status_code = None,
              art_error = Some (ascii ''request_failed'') \<rparr>"
    by blast
  from parse_article_detail_error_tag [where W = "serving 304 page_titles" and S = default_config
      and url = ?u and s = initial_state and L = type_selector_lib
      and r = "\<lparr>status_code = 304, body = page_titles\<rparr>"] h2
  have b: "\<exists>a. fst (parse_article_detail (serving 304 page_titles) type_selector_lib default_config
          ?u initial_state) = Inr a
        \<and> art_status_code a = Some 304 \<and> art_error a = Some (ascii ''http_304'')"
    using str304 by (auto simp: ascii_def)
  from parse_article_detail_error_tag [where W = "serving 200 page_titles" and S = default_config
      and url = ?u and s = initial_state and L = type_selector_lib
      and r = "\<lparr>status_code = 200, body = page_titles\<rparr>"] h3
  have c: "\<exists>a. fst (parse_article_detail (serving 200 page_titles) type_selector_lib default_config
          ?u initial_state) = Inr a
        \<and> art_status_code a = Some 200 \<and> art_error a = None"
    by simp
  from a b c show ?thesis by blast
qed

section \<open>Link discovery\<close>

lemma link_loop_filtered:
  "list_all filtered_out els \<Longrightarrow> fst (link_loop L has_log page_url i els links s) = links"
  by (induction els arbitrary: i links s)
     (auto simp: filtered_out_def Let_def split: option.splits)

text \<open>
  Claim C7, as amended. For a list page that \<open>make_request\<close> returns with a status
  code outside 400..599: when its HTML has no \<open>a\<close> element and the article-links
  selector matches nothing, \<open>fetch_article_links\<close> returns exactly the one-element
  list of the page URL; when the page has \<open>a\<close> elements and every selected candidate
  is filtered out, it returns the empty list. For a page returned with a status code
  from 400 to 599 it returns the empty list, whatever the HTML is.
\<close>

theorem fetch_article_links_degenerate:
  assumes "fst (make_request W S page_url s) = Inr (Some r)"
  shows "(response_ok r
           \<and> find_all [ascii ''a''] (body r) = []
           \<and> css_select L (article_links_selector S) (body r) = Some []
          \<longrightarrow> fst (fetch_article_links W L S has_log page_url s) = Inr [page_url])
       \<and> (response_ok r
           \<and> find_all [ascii ''a''] (body r) \<noteq> []
           \<and> css_select L (article_links_selector S) (body r) = Some els
           \<and> list_all filtered_out els
          \<longrightarrow> fst (fetch_article_links W L S has_log page_url s) = Inr [])
       \<and> (\<not> response_ok r
          \<longrightarrow> fst (fetch_article_links W L S has_log page_url s) = Inr [])"
proof -
  obtain s1 where mr: "make_request W S page_url s = (Inr (Some r), s1)"
    using assms(1) by (cases "make_request W S page_url s") auto
  show ?thesis
  proof (intro conjI impI)
    assume "response_ok r
           \<and> find_all [ascii ''a''] (body r) = []
           \<and> css_select L (article_links_selector S) (body r) = Some []"
    then show "fst (fetch_article_links W L S has_log page_url s) = Inr [page_url]"
      by (simp add: fetch_article_links_def mr article_links_selector_def Let_def)
  next
    assume "\<not> response_ok r"
    then show "fst (fetch_article_links W L S has_log page_url s) = Inr []"
      by (simp add: fetch_article_links_def mr)
  next
    assume h: "response_ok r
           \<and> find_all [ascii ''a''] (body r) \<noteq> []
           \<and> css_select L (article_links_selector S) (body r) = Some els
           \<and> list_all filtered_out els"
    then have ll: "fst (link_loop L has_log page_url 0 els [] st) = []" for st
      by (simp add: link_loop_filtered)
    define st0 where "st0 = log_message_if has_log (SelectorHits (length els) (article_links_selector S))
        (log_message_if has_log (AnchorCount (length (find_all [ascii ''a''] (body r))))
          (log_message_if has_log (ListResponse (status_code r)) s1))"
    obtain s4 where loop: "link_loop L has_log page_url 0 els [] st0 = ([], s4)"
      using ll [of st0] by (cases "link_loop L has_log page_url 0 els [] st0") auto
    from h show "fst (fetch_article_links W L S has_log page_url s) = Inr []"
      using loop
      by (simp add: fetch_article_links_def mr article_links_selector_def [symmetric] Let_def
            st0_def)
  qed
qed


text \<open>
  A page without anchors gives the list of its own URL; a page with four anchors that
  are all filtered out gives the empty list; a page served with status 503 gives the
  empty list.
\<close>

theorem fetch_article_links_degenerate_witness:
  "fst (fetch_article_links (serving 200 page_titles) type_selector_lib default_config False
      (ascii ''https://a.example/list'') initial_state) = Inr [ascii ''https://a.example/list'']
   \<and> fst (fetch_article_links (serving 200 page_noise) type_selector_lib default_config False
      (ascii ''https://a.example/list'') initial_state) = Inr []
   \<and> fst (fetch_article_links (serving 503 page_noise) type_selector_lib default_config False
      (ascii ''https://a.example/list'') initial_state) = Inr []"
proof -
  let ?u = "ascii ''https://a.example/list''"
  have req: "fst (make_request (serving code page) default_config ?u initial_state)
      = Inr (Some \<lparr>status_code = code, body = page\<rparr>)" for code page
    by (simp add: make_request_def serving_def default_config_def initial_state_def
          numeral_3_eq_3 do_get_def emit_def)
  have ok: "response_ok \<lparr>status_code = 200, body = page\<rparr>" for page
    by (simp add: response_ok_def)
  have bad: "\<not> response_ok \<lparr>status_code = 503, body = page\<rparr>" for page
    by (simp add: response_ok_def)
  have sel: "article_links_selector default_config = ascii ''a''"
    by (simp add: article_links_selector_def default_config_def ascii_def)
  have none: "find_all [ascii ''a''] page_titles = []"
    by (simp add: find_all_def page_titles_def ascii_def)
  have anchors: "find_all [ascii ''a''] page_noise =
     [Elem (ascii ''a'') [(ascii ''href'', ascii ''#top'')] [Text (ascii ''Back to the top'')],
      Elem (ascii ''a'') [(ascii ''href'', ascii ''https://a.example/logo.png'')] [Text (ascii ''The logo'')],
      Elem (ascii ''a'') [(ascii ''href'', ascii ''https://a.example/2'')] [Text (ascii ''Go'')],
      Elem (ascii ''a'') [] [Text (ascii ''An anchor without target'')]]"
    by (simp add: find_all_def page_noise_def ascii_def)
  have f1: "filtered_out (Elem (ascii ''a'') [(ascii ''href'', ascii ''#top'')] [Text (ascii ''Back to the top'')])"
    by (simp add: filtered_out_def skip_link_def normalize_href_def strip_def is_space_def
          startswith_def ascii_def Let_def)
  have f2: "filtered_out (Elem (ascii ''a'') [(ascii ''href'', ascii ''https://a.example/logo.png'')] [Text (ascii ''The logo'')])"
    by (simp add: filtered_out_def skip_link_def normalize_href_def strip_def is_space_def
          startswith_def endswith_def lower_def lower_char_def skipped_extensions_def ascii_def Let_def)
  have f3: "filtered_out (Elem (ascii ''a'') [(ascii ''href'', ascii ''https://a.example/2'')] [Text (ascii ''Go'')])"
    by (simp add: filtered_out_def skip_link_def get_text_strip_def strip_def is_space_def
          ascii_def Let_def)
  have f4: "filtered_out (Elem (ascii ''a'') [] [Text (ascii ''An anchor without target'')])"
    by (simp add: filtered_out_def)
  have a: "fst (fetch_article_links (serving 200 page_titles) type_selector_lib default_config False
      ?u initial_state) = Inr [?u]"
    using fetch_article_links_degenerate [OF req, where L = type_selector_lib and has_log = False
        and code1 = 200 and page1 = page_titles]
      none ok
    by (simp add: sel type_selector_lib_def)
  have b: "fst (fetch_article_links (serving 200 page_noise) type_selector_lib default_config False
      ?u initial_state) = Inr []"
    using fetch_article_links_degenerate [OF req, where L = type_selector_lib and has_log = False
        and code1 = 200 and page1 = page_noise and els = "find_all [ascii ''a''] page_noise"]
      f1 f2 f3 f4 ok
    by (simp add: sel type_selector_lib_def anchors)
  have c: "fst (fetch_article_links (serving 503 page_noise) type_selector_lib default_config False
      ?u initial_state) = Inr []"
    using fetch_article_links_degenerate [OF req, where L = type_selector_lib and has_log = False
        and code1 = 503 and page1 = page_noise]
      bad
    by simp
  from a b c show ?thesis by simp
qed

text \<open>
  The claim as stated fails for a page that is served with an error status. The page
  \<open>page_titles\<close> has no \<open>a\<close> element and the selector matches nothing in it; served
  with status 404, \<open>make_request\<close> returns the response, \<open>if not response\<close> holds for
  it, and \<open>fetch_article_links\<close> returns the empty list, not the list of the page URL.
\<close>

theorem fetch_article_links_error_page_counterexample:
  "find_all [ascii ''a''] page_titles = []
   \<and> css_select type_selector_lib (article_links_selector default_config) page_titles = Some []
   \<and> fst (make_request (serving 404 page_titles) default_config
        (ascii ''https://a.example/list'') initial_state)
       = Inr (Some \<lparr>status_code = 404, body = page_titles\<rparr>)
   \<and> fst (fetch_article_links (serving 404 page_titles) type_selector_lib default_config False
        (ascii ''https://a.example/list'') initial_state) = Inr []
   \<and> fst (fetch_article_links (serving 404 page_titles) type_selector_lib default_config False
        (ascii ''https://a.example/list'') initial_state)
       \<noteq> Inr [ascii ''https://a.example/list'']"
proof -
  let ?u = "ascii ''https://a.example/list''"
  have none: "find_all [ascii ''a''] page_titles = []"
    by (simp add: find_all_def page_titles_def ascii_def)
  have sel: "article_links_selector default_config = ascii ''a''"
    by (simp add: article_links_selector_def default_config_def ascii_def)
  have req: "make_request (serving 404 page_titles) default_config ?u initial_state
      = (Inr (Some \<lparr>status_code = 404, body = page_titles\<rparr>),
         emit (Logger (Non200 404)) (snd (do_get (serving 404 page_titles) ?u initial_state)))"
    by (simp add: make_request_def serving_def default_config_def initial_state_def
          numeral_3_eq_3 do_get_def emit_def)
  have r: "fst (fetch_article_links (serving 404 page_titles) type_selector_lib default_config False
        ?u initial_state) = Inr []"
    by (simp add: fetch_article_links_def req response_ok_def)
  from none sel req r show ?thesis
    by (simp add: type_selector_lib_def)
qed

section \<open>The page loops on a small site\<close>

lemma status_only_refl: "status_only s s"
  unfolding status_only_def by (rule exI [of _ "[]"]) simp

lemma status_only_trans: "status_only s s' \<Longrightarrow> status_only s' s'' \<Longrightarrow> status_only s s''"
  unfolding status_only_def
proof (elim exE)
  fix ms ms'
  assume "s' = s\<lparr>trace := trace s @ map Status ms\<rparr>"
    and "s'' = s'\<lparr>trace := trace s' @ map Status ms'\<rparr>"
  then have "s'' = s\<lparr>trace := trace s @ map Status (ms @ ms')\<rparr>" by simp
  then show "\<exists>ms. s'' = s\<lparr>trace := trace s @ map Status ms\<rparr>" by blast
qed

lemma status_only_log_if: "status_only s (log_message_if h m s)"
  unfolding status_only_def log_message_if_def log_message_def emit_def
  by (cases h) (auto intro: exI [of _ "[m]"] exI [of _ "[]"])

lemma status_only_log: "status_only s (log_message m s)"
  unfolding status_only_def log_message_def emit_def
  by (auto intro: exI [of _ "[m]"])

lemma link_loop_kept:
  "list_all kept els \<Longrightarrow>
     fst (link_loop L h p i els links s) = links @ map (link_of L p) els
     \<and> status_only s (snd (link_loop L h p i els links s))"
proof (induction els arbitrary: i links s)
  case Nil
  then show ?case by (simp add: status_only_refl)
next
  case (Cons a els)
  then obtain raw where raw: "get_attr (ascii ''href'') a = Some raw" "raw \<noteq> []"
      "\<not> skip_link (get_text_strip [] a) (normalize_href raw)"
    by (auto simp: kept_def split: option.splits)
  from Cons have rest: "list_all kept els" by simp
  let ?s = "if i < 5 then log_message_if h (SampleLink (i + 1) (take 30 (get_text_strip [] a)) (Some (normalize_href raw))) s else s"
  have so: "status_only s ?s" by (simp add: status_only_refl status_only_log_if)
  have step: "link_loop L h p i (a # els) links s
      = link_loop L h p (i + 1) els (links @ [urljoin L p (normalize_href raw)]) ?s"
    using raw by (simp add: Let_def)
  show ?case
    unfolding step using Cons.IH [OF rest, of "i + 1" "links @ [urljoin L p (normalize_href raw)]" ?s] so raw
    by (auto simp: link_of_def intro: status_only_trans)
qed

lemma status_only_then_log_if: "status_only s0 s \<Longrightarrow> status_only s0 (log_message_if h m s)"
  by (rule status_only_trans [OF _ status_only_log_if])

lemma status_only_then_log: "status_only s0 s \<Longrightarrow> status_only s0 (log_message m s)"
  by (rule status_only_trans [OF _ status_only_log])

lemma link_loop_status_only:
  "status_only s0 s \<Longrightarrow> status_only s0 (snd (link_loop L h p i els links s))"
proof (induction els arbitrary: i links s)
  case Nil
  then show ?case by simp
next
  case (Cons a els)
  then show ?case
    by (auto simp: Let_def status_only_then_log_if split: option.splits)
qed

lemma make_request_ok:
  assumes "session_get W (gets s) url = Returned r" and "status_code r = 200" and "0 < max_retries S"
  shows "make_request W S url s = (Inr (Some r), snd (do_get W url s))"
proof -
  obtain m where m: "nat (max_retries S) = Suc m"
    using assms(3) by (cases "nat (max_retries S)") auto
  show ?thesis
    using assms(1,2) by (simp add: make_request_def m do_get_def)
qed

lemma fetch_article_links_page:
  assumes "session_get W (gets s) url = Returned r" and "status_code r = 200" and "0 < max_retries S"
    and "css_select L (article_links_selector S) (body r) = Some els"
  shows "fst (fetch_article_links W L S h url s) =
           Inr (if fst (link_loop L h url 0 els []
                     (log_message_if h (SelectorHits (length els) (article_links_selector S))
                       (log_message_if h (AnchorCount (length (find_all [ascii ''a''] (body r))))
                         (log_message_if h (ListResponse 200) (snd (do_get W url s)))))) = []
                   \<and> find_all [ascii ''a''] (body r) = []
                then [url]
                else fst (link_loop L h url 0 els []
                     (log_message_if h (SelectorHits (length els) (article_links_selector S))
                       (log_message_if h (AnchorCount (length (find_all [ascii ''a''] (body r))))
                         (log_message_if h (ListResponse 200) (snd (do_get W url s)))))))"
    and "status_only (snd (do_get W url s)) (snd (fetch_article_links W L S h url s))"
proof -
  have ok: "response_ok r" using assms(2) by (simp add: response_ok_def)
  note mr = make_request_ok [OF assms(1,2,3)]
  show "fst (fetch_article_links W L S h url s) =
           Inr (if fst (link_loop L h url 0 els []
                     (log_message_if h (SelectorHits (length els) (article_links_selector S))
                       (log_message_if h (AnchorCount (length (find_all [ascii ''a''] (body r))))
                         (log_message_if h (ListResponse 200) (snd (do_get W url s)))))) = []
                   \<and> find_all [ascii ''a''] (body r) = []
                then [url]
                else fst (link_loop L h url 0 els []
                     (log_message_if h (SelectorHits (length els) (article_links_selector S))
                       (log_message_if h (AnchorCount (length (find_all [ascii ''a''] (body r))))
                         (log_message_if h (ListResponse 200) (snd (do_get W url s)))))))"
    using ok assms(2,4)
    by (simp add: fetch_article_links_def mr article_links_selector_def [symmetric] Let_def
          split: prod.splits)
  define st where "st = log_message_if h (SelectorHits (length els) (article_links_selector S))
       (log_message_if h (AnchorCount (length (find_all [ascii ''a''] (body r))))
          (log_message_if h (ListResponse 200) (snd (do_get W url s))))"
  obtain links s4 where loop: "link_loop L h url 0 els [] st = (links, s4)"
    by (cases "link_loop L h url 0 els [] st") auto
  have "status_only (snd (do_get W url s)) st"
    by (simp add: st_def status_only_refl status_only_then_log_if)
  from link_loop_status_only [OF this, of L h url 0 els "[]"] loop
  have s4: "status_only (snd (do_get W url s)) s4" by simp
  show "status_only (snd (do_get W url s)) (snd (fetch_article_links W L S h url s))"
    using ok assms(2,4) loop s4
    by (simp add: fetch_article_links_def mr article_links_selector_def [symmetric] Let_def
          st_def [symmetric] status_only_then_log_if)
qed


lemma not_space_digit: "k < 10 \<Longrightarrow> \<not> is_space (48 + k)"
  by (auto simp: is_space_def)

lemma normalize_article_url: "k < 10 \<Longrightarrow> normalize_href (article_url k) = article_url k"
  by (simp add: normalize_href_def article_url_def strip_def is_space_def startswith_def
        ascii_def Let_def)

lemma text_anchor: "k < 10 \<Longrightarrow> get_text_strip [] (anchor k) = ascii ''Article number '' @ [48 + k]"
  by (simp add: get_text_strip_def anchor_def strip_def is_space_def ascii_def)

lemma not_skip_anchor:
  "k < 10 \<Longrightarrow> \<not> skip_link (ascii ''Article number '' @ [48 + k]) (article_url k)"
  by (simp add: skip_link_def article_url_def startswith_def endswith_def lower_def lower_char_def
        skipped_extensions_def exclude_keywords_def ascii_def)

lemma kept_anchor: "k < 10 \<Longrightarrow> kept (anchor k)"
  using normalize_article_url [of k] text_anchor [of k] not_skip_anchor [of k]
  by (simp add: kept_def) (simp add: anchor_def article_url_def ascii_def)

lemma link_of_anchor: "k < 10 \<Longrightarrow> link_of type_selector_lib p (anchor k) = article_url k"
  using normalize_article_url [of k]
  by (simp add: link_of_def type_selector_lib_def) (simp add: anchor_def)


lemma status_only_fields:
  assumes "status_only s s'"
  shows "gets s' = gets s" and "draws s' = draws s" and "is_running s' = is_running s"
    and "total_articles s' = total_articles s" and "current_article s' = current_article s"
    and "self_total_articles s' = self_total_articles s"
    and "self_current_article s' = self_current_article s"
    and "bestsellers_found s' = bestsellers_found s"
    and "csv_file s' = csv_file s"
    and "get_calls (trace s') = get_calls (trace s)"
  using assms by (auto simp: status_only_def get_calls_def)

lemma status_only_trace: "status_only s s' \<Longrightarrow> \<exists>ms. trace s' = trace s @ map Status ms"
  by (auto simp: status_only_def)

lemma elements_anchors:
  "concat (map (\<lambda>c. (case c of Text s \<Rightarrow> [] | Elem t as cs \<Rightarrow> [c]) @ elements c) (map anchor xs))
     = map anchor xs"
  by (induction xs) (simp_all add: anchor_def)

lemma find_all_list_page: "find_all [ascii ''a''] (list_page n) = map anchor [1..<Suc n]"
proof -
  have "filter (\<lambda>e. tag_of e \<in> set [ascii ''a'']) (map anchor xs) = map anchor xs" for xs
    by (induction xs) (simp_all add: anchor_def)
  then show ?thesis
    unfolding find_all_def list_page_def elements.simps elements_anchors by simp
qed

lemma selector_site_config: "article_links_selector (site_config p) = ascii ''a''"
  by (simp add: article_links_selector_def site_config_def default_config_def ascii_def)

lemma retries_site_config: "0 < max_retries (site_config p)"
  by (simp add: site_config_def default_config_def)

lemma get_list_url: "session_get (site n stop) k list_url = Returned \<lparr>status_code = 200, body = list_page n\<rparr>"
  by (simp add: site_def)

lemma fetch_list_page:
  assumes "0 < n" and "n < 10"
  shows "fst (fetch_article_links (site n stop) type_selector_lib (site_config p) h list_url s)
           = Inr (map article_url [1..<Suc n])"
    and "status_only (snd (do_get (site n stop) list_url s))
           (snd (fetch_article_links (site n stop) type_selector_lib (site_config p) h list_url s))"
proof -
  let ?r = "\<lparr>status_code = 200, body = list_page n\<rparr>"
  have css: "css_select type_selector_lib (article_links_selector (site_config p)) (body ?r)
      = Some (map anchor [1..<Suc n])"
    by (simp add: selector_site_config type_selector_lib_def find_all_list_page)
  have kept: "list_all kept (map anchor [1..<Suc n])"
    using assms(2) by (auto simp: list_all_iff intro: kept_anchor)
  have links: "map (link_of type_selector_lib list_url) (map anchor [1..<Suc n]) = map article_url [1..<Suc n]"
    using assms(2) by (auto simp: link_of_anchor)
  have ne: "map article_url [1..<Suc n] \<noteq> []"
    using assms(1) by (simp add: upt_conv_Cons del: upt_Suc)
  note f = fetch_article_links_page [OF get_list_url _ retries_site_config css, simplified]
  show "fst (fetch_article_links (site n stop) type_selector_lib (site_config p) h list_url s)
           = Inr (map article_url [1..<Suc n])"
    using f(1) link_loop_kept [OF kept, of type_selector_lib h list_url 0 "[]"] links ne
    by simp
  show "status_only (snd (do_get (site n stop) list_url s))
           (snd (fetch_article_links (site n stop) type_selector_lib (site_config p) h list_url s))"
    using f(2) by simp
qed


lemma page_noise_anchors:
  "find_all [ascii ''a''] page_noise \<noteq> []"
  "list_all filtered_out (find_all [ascii ''a''] page_noise)"
proof -
  have anchors: "find_all [ascii ''a''] page_noise =
     [Elem (ascii ''a'') [(ascii ''href'', ascii ''#top'')] [Text (ascii ''Back to the top'')],
      Elem (ascii ''a'') [(ascii ''href'', ascii ''https://a.example/logo.png'')] [Text (ascii ''The logo'')],
      Elem (ascii ''a'') [(ascii ''href'', ascii ''https://a.example/2'')] [Text (ascii ''Go'')],
      Elem (ascii ''a'') [] [Text (ascii ''An anchor without target'')]]"
    by (simp add: find_all_def page_noise_def ascii_def)
  have f1: "filtered_out (Elem (ascii ''a'') [(ascii ''href'', ascii ''#top'')] [Text (ascii ''Back to the top'')])"
    by (simp add: filtered_out_def skip_link_def normalize_href_def strip_def is_space_def
          startswith_def ascii_def Let_def)
  have f2: "filtered_out (Elem (ascii ''a'') [(ascii ''href'', ascii ''https://a.example/logo.png'')] [Text (ascii ''The logo'')])"
    by (simp add: filtered_out_def skip_link_def normalize_href_def strip_def is_space_def
          startswith_def endswith_def lower_def lower_char_def skipped_extensions_def ascii_def Let_def)
  have f3: "filtered_out (Elem (ascii ''a'') [(ascii ''href'', ascii ''https://a.example/2'')] [Text (ascii ''Go'')])"
    by (simp add: filtered_out_def skip_link_def get_text_strip_def strip_def is_space_def
          ascii_def Let_def)
  have f4: "filtered_out (Elem (ascii ''a'') [] [Text (ascii ''An anchor without target'')])"
    by (simp add: filtered_out_def)
  show "find_all [ascii ''a''] page_noise \<noteq> []" by (simp add: anchors)
  show "list_all filtered_out (find_all [ascii ''a''] page_noise)"
    by (simp add: anchors f1 f2 f3 f4)
qed

lemma page_urls:
  "page_url_of list_url 1 = list_url"
  "page_url_of list_url 2 = list_url @ ascii ''?page=2''"
  by (simp_all add: page_url_of_def list_url_def str_of_int_def nat_digits.simps ascii_def)

lemma get_page2:
  "session_get (site n stop) k (list_url @ ascii ''?page=2'')
     = Returned \<lparr>status_code = 200, body = page_noise\<rparr>"
  by (simp add: site_def) (simp add: ascii_def)

lemma fetch_noise_page:
  "fst (fetch_article_links (site n stop) type_selector_lib (site_config p) h
      (list_url @ ascii ''?page=2'') s) = Inr []"
  "status_only (snd (do_get (site n stop) (list_url @ ascii ''?page=2'') s))
      (snd (fetch_article_links (site n stop) type_selector_lib (site_config p) h
         (list_url @ ascii ''?page=2'') s))"
proof -
  let ?r = "\<lparr>status_code = 200, body = page_noise\<rparr>"
  have css: "css_select type_selector_lib (article_links_selector (site_config p)) (body ?r)
      = Some (find_all [ascii ''a''] page_noise)"
    by (simp add: selector_site_config type_selector_lib_def)
  note f = fetch_article_links_page [OF get_page2 _ retries_site_config css, simplified]
  show "fst (fetch_article_links (site n stop) type_selector_lib (site_config p) h
      (list_url @ ascii ''?page=2'') s) = Inr []"
    using f(1) page_noise_anchors by (simp add: link_loop_filtered)
  show "status_only (snd (do_get (site n stop) (list_url @ ascii ''?page=2'') s))
      (snd (fetch_article_links (site n stop) type_selector_lib (site_config p) h
         (list_url @ ascii ''?page=2'') s))"
    using f(2) by simp
qed


lemma get_calls_append: "get_calls (xs @ ys) = get_calls xs @ get_calls ys"
  by (simp add: get_calls_def)

lemma get_calls_status: "get_calls (map Status ms) = []"
  by (induction ms) (simp_all add: get_calls_def)

lemma delays_site:
  "uniform (site n stop) (page_delay_min (site_config p)) (page_delay_max (site_config p)) s
     = (4, s\<lparr>draws := Suc (draws s)\<rparr>)"
  "uniform (site n stop) (request_delay_min (site_config p)) (request_delay_max (site_config p)) s
     = (3, s\<lparr>draws := Suc (draws s)\<rparr>)"
  by (simp_all add: uniform_def site_def site_config_def default_config_def)

lemma sleep_site:
  "0 \<le> d \<Longrightarrow> d \<le> 9000000000 \<Longrightarrow> sleep (site n stop) d s = (Inr (), emit (Sleep d) s)"
  by (simp add: sleep_accepted site_def)

lemma page_step_list:
  assumes "0 < n" and "n < 10" and "is_running s"
  shows "page_loop_progress (site n stop) type_selector_lib (site_config p) list_url (1 # rest) [] s
     = page_loop_progress (site n stop) type_selector_lib (site_config p) list_url rest
         (map article_url [1..<Suc n])
         (emit (Sleep 4)
            ((snd (fetch_article_links (site n stop) type_selector_lib (site_config p) True list_url
                     (log_message (FetchingPage 1 list_url) s)))
               \<lparr>self_total_articles := n, total_articles := n, draws :=
                  Suc (draws (snd (fetch_article_links (site n stop) type_selector_lib (site_config p)
                     True list_url (log_message (FetchingPage 1 list_url) s))))\<rparr>))"
proof -
  let ?f = "fetch_article_links (site n stop) type_selector_lib (site_config p) True list_url
              (log_message (FetchingPage 1 list_url) s)"
  have f: "?f = (Inr (map article_url [1..<Suc n]), snd ?f)"
    using fetch_list_page(1) [OF assms(1,2), of stop p True "log_message (FetchingPage 1 list_url) s"]
    by (simp add: prod_eq_iff)
  have ne: "map article_url [1..<Suc n] \<noteq> []"
    using assms(1) by (simp add: upt_conv_Cons del: upt_Suc)
  show ?thesis
    using assms(3) ne
    by (subst page_loop_progress.simps, subst page_urls(1), subst page_urls(1), subst f)
       (simp add: delays_site sleep_site del: upt_Suc)
qed


lemma page_loop_progress_empty:
  assumes "is_running s"
    and "fst (fetch_article_links W L S True (page_url_of base page)
           (log_message (FetchingPage page (page_url_of base page)) s)) = Inr []"
  shows "page_loop_progress W L S base (page # rest) all_links s
     = page_loop_progress W L S base rest all_links
         (log_message (PageEmpty page)
            (snd (fetch_article_links W L S True (page_url_of base page)
               (log_message (FetchingPage page (page_url_of base page)) s))))"
  using assms
  by (cases "fetch_article_links W L S True (page_url_of base page)
        (log_message (FetchingPage page (page_url_of base page)) s)") auto

lemma page_loop_empty:
  assumes "fst (fetch_article_links W L S False (page_url_of base page) s) = Inr []"
  shows "page_loop W L S base (page # rest) all_links s
     = page_loop W L S base rest all_links
         (emit (Logger (PageNoArticles page))
            (snd (fetch_article_links W L S False (page_url_of base page) s)))"
  using assms
  by (cases "fetch_article_links W L S False (page_url_of base page) s") auto

lemma two_pages:
  fixes W L S s0
  defines "W \<equiv> site 2 None" and "L \<equiv> type_selector_lib" and "S \<equiv> site_config 2"
  defines "s0 \<equiv> started (site 2 None) initial_state"
  shows "fst (fetch_multiple_pages_progress W L S list_url 2 s0) = Inr [article_url 1, article_url 2]"
    and "total_articles (snd (fetch_multiple_pages_progress W L S list_url 2 s0)) = 2"
    and "get_calls (trace (snd (fetch_multiple_pages_progress W L S list_url 2 s0)))
           = [list_url, list_url @ ascii ''?page=2'']"
    and "Status (PageEmpty 2) \<in> set (trace (snd (fetch_multiple_pages_progress W L S list_url 2 s0)))"
proof -
  let ?u2 = "list_url @ ascii ''?page=2''"
  have run0: "is_running s0"
    by (simp add: s0_def started_def site_def log_message_def emit_def)
  have tr0: "get_calls (trace s0) = []"
    by (simp add: s0_def started_def initial_state_def log_message_def emit_def get_calls_def)
  define sA where "sA = log_message (FetchingPage 1 list_url) s0"
  define sB where "sB = snd (fetch_article_links W L S True list_url sA)"
  define sC where "sC = emit (Sleep 4) (sB\<lparr>self_total_articles := 2, total_articles := 2,
      draws := Suc (draws sB)\<rparr>)"
  define sD where "sD = log_message (FetchingPage 2 ?u2) sC"
  define sE where "sE = snd (fetch_article_links W L S True ?u2 sD)"
  have soB: "status_only (snd (do_get W list_url sA)) sB"
    unfolding sB_def W_def L_def S_def by (rule fetch_list_page(2)) simp_all
  have soE: "status_only (snd (do_get W ?u2 sD)) sE"
    unfolding sE_def W_def L_def S_def by (rule fetch_noise_page(2))
  have step1: "page_loop_progress W L S list_url [1, 2] [] s0
      = page_loop_progress W L S list_url [2] [article_url 1, article_url 2] sC"
    using page_step_list [of 2 s0 None 2 "[2]"] run0
    by (simp add: W_def L_def S_def sC_def sB_def sA_def upt_rec numeral_2_eq_2
          del: page_loop_progress.simps)
  have runB: "is_running sB"
    using status_only_fields(3) [OF soB] run0
    by (simp add: do_get_def sA_def log_message_def emit_def W_def site_def)
  have runC: "is_running sC" using runB by (simp add: sC_def emit_def)
  have fE: "fst (fetch_article_links W L S True (page_url_of list_url 2)
           (log_message (FetchingPage 2 (page_url_of list_url 2)) sC)) = Inr []"
    unfolding page_urls W_def L_def S_def by (rule fetch_noise_page(1))
  have step2: "page_loop_progress W L S list_url [2] [article_url 1, article_url 2] sC
      = (Inr [article_url 1, article_url 2], log_message (PageEmpty 2) sE)"
    using page_loop_progress_empty [OF runC fE, of "[]" "[article_url 1, article_url 2]"]
    by (simp add: page_urls sE_def sD_def del: page_loop_progress.simps)
       (simp add: page_urls)
  have res: "fetch_multiple_pages_progress W L S list_url 2 s0
      = (Inr [article_url 1, article_url 2],
         log_message (TotalLinks 2) (log_message (PageEmpty 2) sE))"
  proof -
    have "[1..2::int] = [1, 2]" by (simp add: upto.simps)
    then show ?thesis
      unfolding fetch_multiple_pages_progress_def
      by (simp only: step1 step2) (simp add: numeral_2_eq_2)
  qed
  show "fst (fetch_multiple_pages_progress W L S list_url 2 s0) = Inr [article_url 1, article_url 2]"
    by (simp add: res)
  have totC: "total_articles sC = 2" by (simp add: sC_def emit_def)
  have totE: "total_articles sE = 2"
    using status_only_fields(4) [OF soE] totC
    by (simp add: do_get_def sD_def log_message_def emit_def)
  show "total_articles (snd (fetch_multiple_pages_progress W L S list_url 2 s0)) = 2"
    using totE by (simp add: res log_message_def emit_def)
  have gB: "get_calls (trace sB) = [list_url]"
    using status_only_fields(10) [OF soB] tr0
    by (simp add: do_get_def sA_def log_message_def emit_def get_calls_append) (simp add: get_calls_def)
  have gE: "get_calls (trace sE) = [list_url, ?u2]"
    using status_only_fields(10) [OF soE] gB
    by (simp add: do_get_def sD_def sC_def log_message_def emit_def get_calls_append)
       (simp add: get_calls_def)
  show "get_calls (trace (snd (fetch_multiple_pages_progress W L S list_url 2 s0)))
           = [list_url, ?u2]"
    using gE by (simp add: res log_message_def emit_def get_calls_append) (simp add: get_calls_def)
  show "Status (PageEmpty 2) \<in> set (trace (snd (fetch_multiple_pages_progress W L S list_url 2 s0)))"
    by (simp add: res log_message_def emit_def)
qed


lemma started_running: "is_running (started (site n None) s)"
  by (simp add: started_def site_def log_message_def emit_def)

text \<open>
  Claim C5. In both page loops a page whose list of links is empty is logged and the
  loop goes on with the next page number, the links gathered so far unchanged: in the
  loop of web\_app.py (while the job is running) with the status message of the empty
  page, in the loop of fixed\_scraper.py with the logger's message. On the small site
  with two list pages, the first with two article links and the second with none, and
  \<open>max_pages = 2\<close>, the page loop of the job requests both pages, reports the second
  as empty, returns the two links and leaves \<open>total_articles = 2\<close>.
\<close>

theorem empty_page_logged_and_skipped:
  "(is_running s
      \<and> fst (fetch_article_links W L S True (page_url_of base page)
               (log_message (FetchingPage page (page_url_of base page)) s)) = Inr []
    \<longrightarrow> page_loop_progress W L S base (page # rest) all_links s
        = page_loop_progress W L S base rest all_links
            (log_message (PageEmpty page)
               (snd (fetch_article_links W L S True (page_url_of base page)
                  (log_message (FetchingPage page (page_url_of base page)) s)))))
   \<and> (fst (fetch_article_links W L S False (page_url_of base page) s) = Inr []
    \<longrightarrow> page_loop W L S base (page # rest) all_links s
        = page_loop W L S base rest all_links
            (emit (Logger (PageNoArticles page))
               (snd (fetch_article_links W L S False (page_url_of base page) s))))
   \<and> fst (fetch_multiple_pages_progress (site 2 None) type_selector_lib (site_config 2)
           list_url 2 (started (site 2 None) initial_state))
       = Inr [article_url 1, article_url 2]
   \<and> total_articles (snd (fetch_multiple_pages_progress (site 2 None) type_selector_lib
         (site_config 2) list_url 2 (started (site 2 None) initial_state))) = 2
   \<and> get_calls (trace (snd (fetch_multiple_pages_progress (site 2 None) type_selector_lib
         (site_config 2) list_url 2 (started (site 2 None) initial_state))))
       = [list_url, list_url @ ascii ''?page=2'']
   \<and> Status (PageEmpty 2) \<in> set (trace (snd (fetch_multiple_pages_progress (site 2 None)
         type_selector_lib (site_config 2) list_url 2 (started (site 2 None) initial_state))))"
  using page_loop_progress_empty [of s W L S base page rest all_links]
    page_loop_empty [of W L S base page s rest all_links] two_pages
  by blast

theorem empty_page_logged_and_skipped_witness:
  "is_running (started (site 2 None) initial_state)
   \<and> fst (fetch_article_links (site 2 None) type_selector_lib (site_config 2) True
        (page_url_of list_url 2)
        (log_message (FetchingPage 2 (page_url_of list_url 2))
           (started (site 2 None) initial_state))) = Inr []
   \<and> page_loop_progress (site 2 None) type_selector_lib (site_config 2) list_url [2] []
        (started (site 2 None) initial_state)
      = (Inr [], log_message (PageEmpty 2)
           (snd (fetch_article_links (site 2 None) type_selector_lib (site_config 2) True
              (page_url_of list_url 2)
              (log_message (FetchingPage 2 (page_url_of list_url 2))
                 (started (site 2 None) initial_state)))))
   \<and> fst (fetch_article_links (site 2 None) type_selector_lib (site_config 2) False
        (page_url_of list_url 2) initial_state) = Inr []
   \<and> page_loop (site 2 None) type_selector_lib (site_config 2) list_url [2] [] initial_state
      = (Inr [], emit (Logger (PageNoArticles 2))
           (snd (fetch_article_links (site 2 None) type_selector_lib (site_config 2) False
              (page_url_of list_url 2) initial_state)))"
proof -
  have r: "is_running (started (site 2 None) initial_state)" by (rule started_running)
  have f: "fst (fetch_article_links (site 2 None) type_selector_lib (site_config 2) h
        (page_url_of list_url 2) s) = Inr []" for h s
    unfolding page_urls by (rule fetch_noise_page(1))
  show ?thesis
    using empty_page_logged_and_skipped [where s = "started (site 2 None) initial_state"
        and W = "site 2 None" and L = type_selector_lib and S = "site_config 2"
        and base = list_url and page = 2 and rest = "[]" and all_links = "[]"]
      empty_page_logged_and_skipped [where s = initial_state
        and W = "site 2 None" and L = type_selector_lib and S = "site_config 2"
        and base = list_url and page = 2 and rest = "[]" and all_links = "[]"]
      r f
    by simp
qed

section \<open>The job and its cancellation\<close>

lemma run_scraper_not_running: "\<not> is_running (run_scraper W L S kws min_content_length s)"
  by (simp add: run_scraper_def split: prod.splits sum.splits)

lemma strip_replicate: "\<not> is_space c \<Longrightarrow> strip (replicate n c) = replicate n c"
  by (simp add: strip_def)

lemma not_space_x: "\<not> is_space 120"
  by (simp add: is_space_def)

lemma no_content_selector: "selectors (site_config p) (ascii ''content'') = None"
  by (simp add: site_config_def default_config_def ascii_def)

lemma extract_content_article_page:
  "extract_content type_selector_lib (site_config p) article_page = replicate 240 120"
proof -
  have d: "decompose [ascii ''script'', ascii ''style'', ascii ''noscript''] article_page = article_page"
    by (simp add: article_page_def ascii_def)
  have a: "find_first (ascii ''article'') article_page = None"
    by (simp add: find_first_def find_all_def article_page_def ascii_def)
  have p: "paragraphs_text article_page = []"
    by (simp add: paragraphs_text_def find_all_def article_page_def ascii_def strip_def)
  have t: "map (get_text_strip [10]) (find_all [ascii ''div'', ascii ''section'', ascii ''main''] article_page)
      = [replicate 240 120]"
    by (simp add: find_all_def article_page_def get_text_strip_def strip_replicate not_space_x)
  show ?thesis
    by (simp add: extract_content_def d a p t no_content_selector best_text_def strip_replicate
          not_space_x Let_def)
qed

lemma get_article_url:
  "session_get (site n stop) g (article_url k) = Returned \<lparr>status_code = 200, body = article_page\<rparr>"
proof -
  have "length (article_url k) = 27" by (simp add: article_url_def ascii_def)
  moreover have "length list_url = 22" by (simp add: list_url_def ascii_def)
  moreover have "length (list_url @ ascii ''?page=2'') = 29" by (simp add: list_url_def ascii_def)
  ultimately have "article_url k \<noteq> list_url" "article_url k \<noteq> list_url @ ascii ''?page=2''"
    by auto
  then show ?thesis by (simp add: site_def)
qed

lemma parse_site_article:
  "parse_article_detail (site n stop) type_selector_lib (site_config p) (article_url k) s
     = (Inr (article_data type_selector_lib (site_config p) (article_url k)
               \<lparr>status_code = 200, body = article_page\<rparr>),
        snd (do_get (site n stop) (article_url k) s))"
proof -
  have "make_request (site n stop) (site_config p) (article_url k) s
      = (Inr (Some \<lparr>status_code = 200, body = article_page\<rparr>),
         snd (do_get (site n stop) (article_url k) s))"
    by (rule make_request_ok [OF get_article_url _ retries_site_config]) simp
  then show ?thesis
    by (simp add: parse_article_detail_def response_ok_def)
qed

lemma number_selectors_site:
  "selectors (site_config p) (ascii ''read_count'') = Some (ascii ''p'')"
  "selectors (site_config p) (ascii ''like_count'') = Some (ascii ''p'')"
  "selectors (site_config p) (ascii ''collect_count'') = Some (ascii ''p'')"
  by (simp_all add: site_config_def default_config_def ascii_def)

lemma no_paragraph_article_page: "find_all [ascii ''p''] article_page = []"
  by (simp add: find_all_def article_page_def ascii_def)

lemma extract_number_article_page:
  assumes "selectors S f = Some (ascii ''p'')"
  shows "extract_number type_selector_lib S article_page f = 0"
  using assms
  by (simp add: extract_number_def select_one_def type_selector_lib_def no_paragraph_article_page)

lemma thresholds_site: "min_read_count (site_config p) = 100"
  by (simp add: site_config_def default_config_def)

lemma article_data_site:
  fixes p k
  defines "a \<equiv> article_data type_selector_lib (site_config p) (article_url k)
                  \<lparr>status_code = 200, body = article_page\<rparr>"
  shows "content a = replicate 240 120" and "detail_url a = article_url k"
    and "\<not> bestseller a" and "art_error a = None"
proof -
  show "content a = replicate 240 120"
    unfolding a_def article_data_def Let_def by (simp add: extract_content_article_page)
  show "detail_url a = article_url k"
    unfolding a_def article_data_def Let_def by simp
  show "\<not> bestseller a"
    unfolding a_def article_data_def Let_def
    by (simp add: extract_number_article_page number_selectors_site is_bestseller_def thresholds_site)
  show "art_error a = None"
    unfolding a_def article_data_def Let_def by simp
qed

lemma parse_progress_site:
  "parse_article_detail_progress (site n stop) type_selector_lib (site_config p) (article_url k) s
     = (Inr (article_data type_selector_lib (site_config p) (article_url k)
               \<lparr>status_code = 200, body = article_page\<rparr>),
        snd (do_get (site n stop) (article_url k)
          (log_message (ProcessingArticle (Suc (self_current_article s)) (self_total_articles s)
               (article_url k))
             (s\<lparr>self_current_article := Suc (self_current_article s),
                current_article := Suc (self_current_article s)\<rparr>))))"
  by (simp add: parse_article_detail_progress_def Let_def parse_site_article article_data_site(3))

lemma detail_step:
  assumes "is_running s"
  shows "detail_loop (site n stop) type_selector_lib (site_config p) [] 200 (article_url k # rest) arts s
     = detail_loop (site n stop) type_selector_lib (site_config p) [] 200 rest
         (arts @ [article_data type_selector_lib (site_config p) (article_url k)
                    \<lparr>status_code = 200, body = article_page\<rparr>])
         (emit (Sleep 3)
            ((snd (do_get (site n stop) (article_url k)
                (log_message (ProcessingArticle (Suc (self_current_article s))
                     (self_total_articles s) (article_url k))
                   (s\<lparr>self_current_article := Suc (self_current_article s),
                      current_article := Suc (self_current_article s)\<rparr>))))
             \<lparr>draws := Suc (draws s)\<rparr>))"
  using assms
  by (subst detail_loop.simps)
     (simp add: parse_progress_site article_data_site(1) strip_replicate not_space_x
        delays_site(2) sleep_site do_get_def log_message_def emit_def del: detail_loop.simps)

lemma detail_stopped:
  assumes "\<not> is_running s"
  shows "detail_loop W L S kws min_content_length (link # rest) arts s
     = (Inr arts, log_message StoppedByUser s)"
  using assms by simp

lemma site_config_fields: "base_url (site_config p) = list_url" "max_pages (site_config p) = p"
  by (simp_all add: site_config_def)

lemma five_links:
  "map article_url [1..<Suc 5]
     = [article_url 1, article_url 2, article_url 3, article_url 4, article_url 5]"
  by (simp add: upt_conv_Cons eval_nat_numeral)

lemma status_only_error: "status_only s s' \<Longrightarrow> error s' = error s"
  by (auto simp: status_only_def)

lemma cancelled_run_result:
  fixes a
  defines "a \<equiv> article_data type_selector_lib (site_config 1) (article_url 1)
                  \<lparr>status_code = 200, body = article_page\<rparr>"
  shows "current_article cancelled_run = 1"
    and "total_articles cancelled_run = 5"
    and "csv_file cancelled_run = Some [a]"
    and "last_articles cancelled_run = [a]"
    and "get_calls (trace cancelled_run) = [list_url, article_url 1]"
    and "Status StoppedByUser \<in> set (trace cancelled_run)"
    and "\<not> error cancelled_run"
proof -
  define W where "W = site 5 (Some 2)"
  define S where "S = site_config 1"
  define s0 where "s0 = started W initial_state"
  have f0: "is_running s0" "gets s0 = 0" "self_current_article s0 = 0" "\<not> error s0"
      "get_calls (trace s0) = []"
    by (simp_all add: s0_def W_def started_def site_def initial_state_def log_message_def
          emit_def get_calls_def)
  define sA where "sA = log_message (FetchingPage 1 list_url) s0"
  define sB where "sB = snd (fetch_article_links W type_selector_lib S True list_url sA)"
  define sC where "sC = emit (Sleep 4) (sB\<lparr>self_total_articles := 5, total_articles := 5,
      draws := Suc (draws sB)\<rparr>)"
  define sD where "sD = log_message (TotalLinks 5) sC"
  have soB: "status_only (snd (do_get W list_url sA)) sB"
    unfolding sB_def W_def S_def by (rule fetch_list_page(2)) simp_all
  have stop: "stop_after W = Some 2" by (simp add: W_def site_def)
  have fB: "is_running sB" "gets sB = 1" "self_current_article sB = 0" "\<not> error sB"
      "get_calls (trace sB) = [list_url]"
    using status_only_fields [OF soB] status_only_error [OF soB] f0 stop
    by (simp_all add: do_get_def sA_def log_message_def emit_def get_calls_append)
       (simp_all add: get_calls_def)
  have fD: "is_running sD" "gets sD = 1" "self_current_article sD = 0" "\<not> error sD"
      "get_calls (trace sD) = [list_url]" "total_articles sD = 5" "draws sD = Suc (draws sB)"
    using fB by (simp_all add: sD_def sC_def log_message_def emit_def get_calls_append)
       (simp_all add: get_calls_def)
  have one: "[1..1::int] = [1]" by (simp add: upto.simps)
  have pages: "page_loop_progress W type_selector_lib S list_url [1] [] s0
      = (Inr (map article_url [1..<Suc 5]), sC)"
    using page_step_list [of 5 s0 "Some 2" 1 "[]"] f0(1)
    by (simp add: W_def S_def sC_def sB_def sA_def del: page_loop_progress.simps(2) upt_Suc)
  have list: "fetch_multiple_pages_progress W type_selector_lib S (base_url S) (max_pages S) s0
      = (Inr [article_url 1, article_url 2, article_url 3, article_url 4, article_url 5], sD)"
    unfolding fetch_multiple_pages_progress_def S_def site_config_fields one
    unfolding S_def [symmetric] pages five_links
    by (simp add: sD_def eval_nat_numeral)
  define sE where "sE = snd (do_get W (article_url 1)
      (log_message (ProcessingArticle (Suc (self_current_article sD)) (self_total_articles sD)
           (article_url 1))
         (sD\<lparr>self_current_article := Suc (self_current_article sD),
            current_article := Suc (self_current_article sD)\<rparr>)))"
  define sF where "sF = emit (Sleep 3) (sE\<lparr>draws := Suc (draws sD)\<rparr>)"
  have fF: "\<not> is_running sF" "current_article sF = 1" "\<not> error sF" "total_articles sF = 5"
      "get_calls (trace sF) = [list_url, article_url 1]"
    using fD stop
    by (simp_all add: sF_def sE_def do_get_def log_message_def emit_def get_calls_append)
       (simp_all add: get_calls_def)
  have first: "detail_loop W type_selector_lib S [] 200
        [article_url 1, article_url 2, article_url 3, article_url 4, article_url 5] [] sD
      = detail_loop W type_selector_lib S [] 200
          [article_url 2, article_url 3, article_url 4, article_url 5] [a] sF"
    using detail_step [OF fD(1), of 5 "Some 2" 1 1
        "[article_url 2, article_url 3, article_url 4, article_url 5]" "[]"]
    by (simp add: W_def S_def a_def sF_def sE_def del: detail_loop.simps)
  have details: "detail_loop W type_selector_lib S [] 200
        [article_url 1, article_url 2, article_url 3, article_url 4, article_url 5] [] sD
      = (Inr [a], log_message StoppedByUser sF)"
    unfolding first by (rule detail_stopped [OF fF(1)])
  have csv: "csv_writable W" by (simp add: W_def site_def)
  have run: "cancelled_run
      = (log_message SavedTo (log_message (TaskDone [] 1)
           ((log_message StoppedByUser sF)\<lparr>csv_file := Some [a]\<rparr>)))
          \<lparr>last_articles := [a], is_running := False\<rparr>"
    unfolding cancelled_run_def run_scraper_def job_def W_def [symmetric] S_def [symmetric]
      s0_def [symmetric] list
    by (simp add: details [unfolded One_nat_def] csv del: detail_loop.simps)
  show "current_article cancelled_run = 1"
    using fF by (simp add: run log_message_def emit_def)
  show "total_articles cancelled_run = 5"
    using fF by (simp add: run log_message_def emit_def)
  show "csv_file cancelled_run = Some [a]"
    by (simp add: run log_message_def emit_def)
  show "last_articles cancelled_run = [a]"
    by (simp add: run log_message_def emit_def)
  show "get_calls (trace cancelled_run) = [list_url, article_url 1]"
    using fF by (simp add: run log_message_def emit_def get_calls_append) (simp add: get_calls_def)
  show "Status StoppedByUser \<in> set (trace cancelled_run)"
    by (simp add: run log_message_def emit_def)
  show "\<not> error cancelled_run"
    using fF by (simp add: run log_message_def emit_def)
qed

lemma make_request_sleep_fails:
  assumes "max_retries S = 3" and "retry_delay S = - 5"
  shows "fst (make_request (failing_world f) S url s) = Inl ValueError"
  using assms
  by (simp add: make_request_def eval_nat_numeral do_get_def failing_world_def uniform_def
        sleep_def sleep_error_negative Let_def)

lemma fetch_article_links_fails:
  assumes "fst (make_request W S url s) = Inl e"
  shows "fst (fetch_article_links W L S h url s) = Inl e"
  using assms by (cases "make_request W S url s") (auto simp: fetch_article_links_def)

lemma page_loop_progress_fails:
  assumes "is_running s"
    and "fst (fetch_article_links W L S True (page_url_of base page)
           (log_message (FetchingPage page (page_url_of base page)) s)) = Inl e"
  shows "fst (page_loop_progress W L S base (page # rest) all_links s) = Inl e"
  using assms
  by (cases "fetch_article_links W L S True (page_url_of base page)
        (log_message (FetchingPage page (page_url_of base page)) s)") auto

lemma job_fails:
  assumes "fst (page_loop_progress W L S (base_url S) [1..max_pages S] [] (started W s)) = Inl e"
  shows "fst (job W L S kws min_content_length s) = Inl e"
  using assms
  by (cases "page_loop_progress W L S (base_url S) [1..max_pages S] [] (started W s)")
     (auto simp: job_def fetch_multiple_pages_progress_def)

lemma run_scraper_failure:
  assumes "isl (fst (job W L S kws min_content_length s))"
  shows "error (run_scraper W L S kws min_content_length s)"
    and "Status RunFailed \<in> set (trace (run_scraper W L S kws min_content_length s))"
  using assms
  by (cases "job W L S kws min_content_length s";
      auto simp: run_scraper_def log_message_def emit_def split: sum.splits)+

lemma negative_delay_job:
  "fst (job (failing_world Timeout) type_selector_lib (default_config\<lparr>retry_delay := - 5\<rparr>)
          [] 200 initial_state) = Inl ValueError"
proof -
  let ?W = "failing_world Timeout" and ?S = "default_config\<lparr>retry_delay := - 5\<rparr>"
  have c: "max_retries ?S = 3" "retry_delay ?S = - 5" "max_pages ?S = 1"
    by (simp_all add: default_config_def)
  have r: "is_running (started ?W initial_state)"
    by (simp add: started_def failing_world_def log_message_def emit_def)
  have one: "[1..1::int] = [1]" by (simp add: upto.simps)
  show ?thesis
    by (rule job_fails, unfold c(3) one, rule page_loop_progress_fails [OF r],
        rule fetch_article_links_fails, rule make_request_sleep_fails [OF c(1,2)])
qed

text \<open>
  Claim C6. \<open>run_scraper\<close> never leaves \<open>is_running\<close> set, whatever the world, the
  configuration and the state it starts from; when its body raises, the error is
  recorded and reported as well. On the small site with five article links, when the
  stop request falls after the second GET (the list page and the first article), the
  run ends with \<open>is_running\<close> cleared and \<open>current_article = 1\<close>, the one article read
  so far is written to the CSV file and kept in \<open>last_articles\<close>, the stop is
  reported, and no GET follows that of the first article.
\<close>

theorem run_scraper_stops_and_clears_is_running:
  "\<not> is_running (run_scraper W L S kws min_content_length s)
   \<and> (isl (fst (job W L S kws min_content_length s))
      \<longrightarrow> error (run_scraper W L S kws min_content_length s)
        \<and> Status RunFailed \<in> set (trace (run_scraper W L S kws min_content_length s)))
   \<and> \<not> is_running cancelled_run
   \<and> current_article cancelled_run = 1
   \<and> total_articles cancelled_run = 5
   \<and> csv_file cancelled_run
       = Some [article_data type_selector_lib (site_config 1) (article_url 1)
                 \<lparr>status_code = 200, body = article_page\<rparr>]
   \<and> last_articles cancelled_run
       = [article_data type_selector_lib (site_config 1) (article_url 1)
            \<lparr>status_code = 200, body = article_page\<rparr>]
   \<and> get_calls (trace cancelled_run) = [list_url, article_url 1]
   \<and> Status StoppedByUser \<in> set (trace cancelled_run)
   \<and> \<not> error cancelled_run"
proof -
  have "\<not> is_running cancelled_run"
    unfolding cancelled_run_def by (rule run_scraper_not_running)
  then show ?thesis
    using run_scraper_not_running [of W L S kws min_content_length s]
      run_scraper_failure [of W L S kws min_content_length s]
      cancelled_run_result
    by blast
qed

theorem run_scraper_stops_and_clears_is_running_witness:
  "isl (fst (job (failing_world Timeout) type_selector_lib (default_config\<lparr>retry_delay := - 5\<rparr>)
          [] 200 initial_state))
   \<and> error (run_scraper (failing_world Timeout) type_selector_lib
        (default_config\<lparr>retry_delay := - 5\<rparr>) [] 200 initial_state)
   \<and> Status RunFailed \<in> set (trace (run_scraper (failing_world Timeout) type_selector_lib
        (default_config\<lparr>retry_delay := - 5\<rparr>) [] 200 initial_state))
   \<and> \<not> is_running (run_scraper (failing_world Timeout) type_selector_lib
        (default_config\<lparr>retry_delay := - 5\<rparr>) [] 200 initial_state)"
  using run_scraper_stops_and_clears_is_running [where W = "failing_world Timeout"
      and L = type_selector_lib and S = "default_config\<lparr>retry_delay := - 5\<rparr>"
      and kws = "[]" and min_content_length = 200 and s = initial_state]
    negative_delay_job
  by simp

end
